theory Spec2Isabelle
  imports Complex_Main "HOL-Library.AList"
begin

section \<open>Exceptions\<close>

text \<open>
  A raised Python exception is a value: the name of its class and \<open>str(e)\<close>.  The type
  stands for instances of \<open>Exception\<close> and its subclasses, which is what every
  \<open>except Exception\<close> clause of the client catches.  A function that can raise
  returns \<open>exc + 'a\<close>, with \<open>Inl\<close> for the raised exception.
\<close>

datatype exc = Exc (exc_class: string) (exc_msg: string)

section \<open>client/utils.py: retry with exponential backoff\<close>

text \<open>
  \<open>RetryConfig\<close> with the defaults of its \<open>__init__\<close>.  Delays are seconds; the
  floats of the source are modelled as reals.
\<close>

record RetryConfig =
  max_attempts :: int
  base_delay :: real
  max_delay :: real
  exponential_base :: real
  jitter :: bool

definition RetryConfig_defaults :: RetryConfig where
  "RetryConfig_defaults =
     \<lparr>max_attempts = 3, base_delay = 1, max_delay = 30, exponential_base = 2, jitter = True\<rparr>"

text \<open>
  What one run of the decorated function did: the value returned or the exception raised,
  the calls of the wrapped function (with the value of \<open>attempt\<close>) and of
  \<open>asyncio.sleep\<close> (with its argument) in the order they happened, and the state the
  wrapped function left behind.
\<close>

datatype retry_event = Attempt nat | Sleep real

record ('a, 's) retried =
  outcome :: "exc + 'a"
  trace :: "retry_event list"
  final :: 's

text \<open>\<open>raise last_exception\<close>: raising \<open>None\<close> is itself a \<open>TypeError\<close>.\<close>

definition raise_last :: "exc option \<Rightarrow> exc + 'a" where
  "raise_last last_exception =
     (case last_exception of
        None \<Rightarrow> Inl (Exc ''TypeError'' ''exceptions must derive from BaseException'')
      | Some e \<Rightarrow> Inl e)"

text \<open>
  The delay before the next attempt.  \<open>rnd attempt\<close> is the value \<open>random.random()\<close>
  returns in that iteration.
\<close>

definition backoff_delay :: "RetryConfig \<Rightarrow> (nat \<Rightarrow> real) \<Rightarrow> nat \<Rightarrow> real" where
  "backoff_delay config rnd attempt =
     (let delay = min (base_delay config * exponential_base config ^ attempt) (max_delay config)
      in if jitter config then delay * (0.5 + rnd attempt * 0.5) else delay)"

text \<open>
  The \<open>for attempt in range(config.max_attempts)\<close> loop of \<open>wrapper\<close>.  The wrapped
  function is a state transformer \<open>func\<close>; the list holds the values of \<open>attempt\<close>
  still to come.
\<close>

fun retry_loop ::
  "RetryConfig \<Rightarrow> ('s \<Rightarrow> (exc + 'a) \<times> 's) \<Rightarrow> (nat \<Rightarrow> real) \<Rightarrow> nat list \<Rightarrow>
   exc option \<Rightarrow> retry_event list \<Rightarrow> 's \<Rightarrow> ('a, 's) retried" where
  "retry_loop config func rnd [] last_exception events s =
     \<lparr>outcome = raise_last last_exception, trace = events, final = s\<rparr>"
| "retry_loop config func rnd (attempt # rest) last_exception events s =
     (case func s of
        (Inr v, s') \<Rightarrow> \<lparr>outcome = Inr v, trace = events @ [Attempt attempt], final = s'\<rparr>
      | (Inl e, s') \<Rightarrow>
          if int attempt = max_attempts config - 1
          then \<lparr>outcome = raise_last (Some e), trace = events @ [Attempt attempt], final = s'\<rparr>
          else retry_loop config func rnd rest (Some e)
                 (events @ [Attempt attempt, Sleep (backoff_delay config rnd attempt)]) s')"

definition retry_with_exponential_backoff ::
  "RetryConfig \<Rightarrow> ('s \<Rightarrow> (exc + 'a) \<times> 's) \<Rightarrow> (nat \<Rightarrow> real) \<Rightarrow> 's \<Rightarrow> ('a, 's) retried" where
  "retry_with_exponential_backoff config func rnd s =
     retry_loop config func rnd [0..<nat (max_attempts config)] None [] s"

section \<open>client/utils.py: the circuit breaker\<close>

text \<open>
  The three values of \<open>self.state\<close>, which the source writes as the strings
  \<open>"CLOSED"\<close>, \<open>"OPEN"\<close> and \<open>"HALF_OPEN"\<close>.
\<close>

datatype cb_state = CLOSED | OPEN | HALF_OPEN

text \<open>
  \<open>expected_exception\<close> is the \<open>isinstance\<close> test of the \<open>except\<close> clause; the
  default class \<open>Exception\<close> accepts every \<open>exc\<close>.
\<close>

record CircuitBreaker =
  failure_threshold :: int
  recovery_timeout :: real
  expected_exception :: "exc \<Rightarrow> bool"
  failure_count :: int
  last_failure_time :: "real option"
  state :: cb_state

definition CircuitBreaker_init :: "int \<Rightarrow> real \<Rightarrow> (exc \<Rightarrow> bool) \<Rightarrow> CircuitBreaker" where
  "CircuitBreaker_init threshold timeout expected =
     \<lparr>failure_threshold = threshold, recovery_timeout = timeout,
      expected_exception = expected, failure_count = 0,
      last_failure_time = None, state = CLOSED\<rparr>"

definition Exception_class :: "exc \<Rightarrow> bool" where
  "Exception_class e = True"

definition CircuitOpen :: exc where
  "CircuitOpen = Exc ''Exception'' ''Circuit breaker is OPEN''"

text \<open>\<open>now\<close> is the reading of \<open>time.time()\<close>.\<close>

definition should_attempt_reset :: "CircuitBreaker \<Rightarrow> real \<Rightarrow> bool" where
  "should_attempt_reset cb now =
     (case last_failure_time cb of
        None \<Rightarrow> False
      | Some t \<Rightarrow> now - t \<ge> recovery_timeout cb)"

definition on_success :: "CircuitBreaker \<Rightarrow> CircuitBreaker" where
  "on_success cb = cb\<lparr>failure_count := 0, state := CLOSED\<rparr>"

definition on_failure :: "CircuitBreaker \<Rightarrow> real \<Rightarrow> CircuitBreaker" where
  "on_failure cb now =
     (let cb1 = cb\<lparr>failure_count := failure_count cb + 1, last_failure_time := Some now\<rparr>
      in if failure_count cb1 \<ge> failure_threshold cb1 then cb1\<lparr>state := OPEN\<rparr> else cb1)"

text \<open>
  The first statement of \<open>wrapper\<close>: an open breaker either turns half-open or rejects
  the call.
\<close>

definition admit :: "CircuitBreaker \<Rightarrow> real \<Rightarrow> exc + CircuitBreaker" where
  "admit cb t_gate =
     (if state cb = OPEN
      then (if should_attempt_reset cb t_gate then Inr (cb\<lparr>state := HALF_OPEN\<rparr>)
            else Inl CircuitOpen)
      else Inr cb)"

text \<open>
  One call through the decorated function: the result, the breaker afterwards, the state
  the wrapped function left, and whether the wrapped function was called at all.
\<close>

record ('a, 's) guarded =
  cb_result :: "exc + 'a"
  cb_after :: CircuitBreaker
  cb_world :: 's
  cb_invoked :: bool

text \<open>
  \<open>wrapper\<close> of \<open>CircuitBreaker.__call__\<close>.  \<open>t_gate\<close> and \<open>t_fail\<close> are the
  readings of \<open>time.time()\<close> in \<open>_should_attempt_reset\<close> and in \<open>_on_failure\<close>.
\<close>

definition CircuitBreaker_call ::
  "CircuitBreaker \<Rightarrow> ('s \<Rightarrow> (exc + 'a) \<times> 's) \<Rightarrow> real \<Rightarrow> real \<Rightarrow> 's \<Rightarrow> ('a, 's) guarded" where
  "CircuitBreaker_call cb func t_gate t_fail s =
     (case admit cb t_gate of
        Inl e \<Rightarrow> \<lparr>cb_result = Inl e, cb_after = cb, cb_world = s, cb_invoked = False\<rparr>
      | Inr cb1 \<Rightarrow>
          (case func s of
             (Inr v, s') \<Rightarrow>
               \<lparr>cb_result = Inr v, cb_after = on_success cb1, cb_world = s', cb_invoked = True\<rparr>
           | (Inl e, s') \<Rightarrow>
               if expected_exception cb1 e
               then \<lparr>cb_result = Inl e, cb_after = on_failure cb1 t_fail, cb_world = s',
                     cb_invoked = True\<rparr>
               else \<lparr>cb_result = Inl e, cb_after = cb1, cb_world = s', cb_invoked = True\<rparr>))"

text \<open>
  What holds of every breaker the code can produce: the count is not negative, and a
  breaker that is not closed has reached its threshold.
\<close>

definition cb_inv :: "CircuitBreaker \<Rightarrow> bool" where
  "cb_inv cb \<longleftrightarrow>
     0 \<le> failure_count cb \<and> (state cb = CLOSED \<or> failure_threshold cb \<le> failure_count cb)"

text \<open>
  A call the breaker turned away: the breaker's own exception, the breaker and the state
  untouched, the wrapped function not called.
\<close>

definition rejected :: "CircuitBreaker \<Rightarrow> ('s \<Rightarrow> (exc + 'a) \<times> 's) \<Rightarrow> real \<Rightarrow> real \<Rightarrow> 's \<Rightarrow> bool" where
  "rejected cb func t tf s \<longleftrightarrow>
     CircuitBreaker_call cb func t tf s =
       \<lparr>cb_result = Inl CircuitOpen, cb_after = cb, cb_world = s, cb_invoked = False\<rparr>"

section \<open>Python values and objects\<close>

text \<open>The values of \<open>ConnectionStatus\<close> in shared/models.py and their \<open>.value\<close>.\<close>

datatype ConnectionStatus = DISCONNECTED | CONNECTING | CONNECTED | ERROR

fun status_value :: "ConnectionStatus \<Rightarrow> string" where
  "status_value DISCONNECTED = ''disconnected''"
| "status_value CONNECTING = ''connecting''"
| "status_value CONNECTED = ''connected''"
| "status_value ERROR = ''error''"

text \<open>
  What the manager stores, sends and receives: decoded JSON, the members of
  \<open>ConnectionStatus\<close>, and the \<open>datetime\<close> values of \<open>datetime.utcnow()\<close> (as a
  reading of the clock).  A dictionary is the list of its items in insertion order.
\<close>

datatype pyval =
    PNone
  | PBool bool
  | PInt int
  | PFloat real
  | PStr string
  | PList "pyval list"
  | PDict "(string \<times> pyval) list"
  | PStatus ConnectionStatus
  | PTime real

text \<open>Truth value testing, as \<open>if\<close>, \<open>not\<close> and \<open>or\<close> apply it.\<close>

fun py_truthy :: "pyval \<Rightarrow> bool" where
  "py_truthy PNone = False"
| "py_truthy (PBool b) = b"
| "py_truthy (PInt i) = (i \<noteq> 0)"
| "py_truthy (PFloat x) = (x \<noteq> 0)"
| "py_truthy (PStr s) = (s \<noteq> [])"
| "py_truthy (PList xs) = (xs \<noteq> [])"
| "py_truthy (PDict kvs) = (kvs \<noteq> [])"
| "py_truthy (PStatus c) = True"
| "py_truthy (PTime t) = True"

fun type_name :: "pyval \<Rightarrow> string" where
  "type_name PNone = ''NoneType''"
| "type_name (PBool b) = ''bool''"
| "type_name (PInt i) = ''int''"
| "type_name (PFloat x) = ''float''"
| "type_name (PStr s) = ''str''"
| "type_name (PList xs) = ''list''"
| "type_name (PDict kvs) = ''dict''"
| "type_name (PStatus c) = ''ConnectionStatus''"
| "type_name (PTime t) = ''datetime.datetime''"

definition quoted :: "string \<Rightarrow> string" where
  "quoted s = [CHR 0x27] @ s @ [CHR 0x27]"

definition no_attribute :: "string \<Rightarrow> string \<Rightarrow> exc" where
  "no_attribute cls attr =
     Exc ''AttributeError'' (quoted cls @ '' object has no attribute '' @ quoted attr)"

text \<open>\<open>d.get(key, default)\<close>: only a dictionary has the method.\<close>

fun py_get :: "pyval \<Rightarrow> string \<Rightarrow> pyval \<Rightarrow> exc + pyval" where
  "py_get (PDict kvs) key dflt = Inr (case map_of kvs key of None \<Rightarrow> dflt | Some v \<Rightarrow> v)"
| "py_get v key dflt = Inl (no_attribute (type_name v) ''get'')"

text \<open>\<open>len(v)\<close>: numbers, booleans and \<open>None\<close> have no length.\<close>

fun py_len :: "pyval \<Rightarrow> exc + nat" where
  "py_len (PStr s) = Inr (length s)"
| "py_len (PList xs) = Inr (length xs)"
| "py_len (PDict kvs) = Inr (length kvs)"
| "py_len v = Inl (Exc ''TypeError'' (''object of type '' @ quoted (type_name v) @ '' has no len()''))"

text \<open>
  An object is its attribute dictionary.  The class of the connection records is a
  parameter of the manager: its constructor, called with keyword arguments, and the two
  methods the manager calls, \<open>None\<close> where the class does not define the method.
  \<open>update_status\<close> returns the object as the call leaves it; \<open>is_connected\<close> only
  reads it.  Calling a method the class does not define is an \<open>AttributeError\<close>.
\<close>

type_synonym pyobj = "(string \<times> pyval) list"

record conn_class =
  cls_name :: string
  construct :: "(string \<times> pyval) list \<Rightarrow> exc + pyobj"
  update_status_m :: "(pyobj \<Rightarrow> pyval \<Rightarrow> pyval \<Rightarrow> exc + pyobj) option"
  is_connected_m :: "(pyobj \<Rightarrow> exc + pyval) option"

definition call_update_status :: "conn_class \<Rightarrow> pyobj \<Rightarrow> pyval \<Rightarrow> pyval \<Rightarrow> exc + pyobj" where
  "call_update_status cls obj status message =
     (case update_status_m cls of
        None \<Rightarrow> Inl (no_attribute (cls_name cls) ''update_status'')
      | Some m \<Rightarrow> m obj status message)"

definition call_is_connected :: "conn_class \<Rightarrow> pyobj \<Rightarrow> exc + pyval" where
  "call_is_connected cls obj =
     (case is_connected_m cls of
        None \<Rightarrow> Inl (no_attribute (cls_name cls) ''is_connected'')
      | Some m \<Rightarrow> m obj)"

text \<open>
  The \<open>__init__\<close> a \<open>@dataclass\<close> generates, called with keyword arguments only: a
  keyword that is no field is a \<open>TypeError\<close>, and so is a field without default that
  is not given (the wording of that second message is abridged).  Each field comes with
  its default, if it has one.
\<close>

definition field_value :: "(string \<times> pyval) list \<Rightarrow> string \<times> pyval option \<Rightarrow> string \<times> pyval" where
  "field_value kwargs fd =
     (fst fd, case map_of kwargs (fst fd) of
                Some v \<Rightarrow> v
              | None \<Rightarrow> (case snd fd of Some d \<Rightarrow> d | None \<Rightarrow> PNone))"

definition dataclass_init ::
  "string \<Rightarrow> (string \<times> pyval option) list \<Rightarrow> (string \<times> pyval) list \<Rightarrow> exc + pyobj" where
  "dataclass_init cls flds kwargs =
     (case filter (\<lambda>k. k \<notin> set (map fst flds)) (map fst kwargs) of
        k # _ \<Rightarrow>
          Inl (Exc ''TypeError''
                 (cls @ ''.__init__() got an unexpected keyword argument '' @ quoted k))
      | [] \<Rightarrow>
          (case filter (\<lambda>fd. snd fd = None \<and> map_of kwargs (fst fd) = None) flds of
             fd # _ \<Rightarrow>
               Inl (Exc ''TypeError''
                      (cls @ ''.__init__() missing required argument '' @ quoted (fst fd)))
           | [] \<Rightarrow> Inr (map (field_value kwargs) flds)))"

section \<open>shared/models.py: MCPConnection\<close>

text \<open>
  The dataclass the manager imports.  Its only method is \<open>to_dict\<close>, which the manager
  never calls.
\<close>

definition MCPConnection_fields :: "(string \<times> pyval option) list" where
  "MCPConnection_fields =
     [(''name'', None), (''host'', None), (''port'', None),
      (''status'', Some (PStatus DISCONNECTED)), (''error_message'', Some PNone),
      (''tools'', Some (PList [])), (''resources'', Some (PList [])),
      (''prompts'', Some (PList []))]"

definition MCPConnection :: conn_class where
  "MCPConnection =
     \<lparr>cls_name = ''MCPConnection'',
      construct = dataclass_init ''MCPConnection'' MCPConnection_fields,
      update_status_m = None,
      is_connected_m = None\<rparr>"

section \<open>The servers as the manager sees them\<close>

text \<open>
  A request the shared \<open>httpx\<close> client sends, and what comes back: the call raises (a
  timeout, a refused connection), or it returns a response.  Of a response the manager
  uses the status code, the result of \<open>response.json()\<close> (the decoded body, or the
  decoding error) and \<open>raise_for_status()\<close>, whose exception the library builds.
\<close>

datatype request = GET string | POST string pyval

record response =
  status_code :: int
  json_body :: "exc + pyval"
  status_error :: exc

datatype http_reply = Refused exc | Answered response

definition raise_for_status :: "response \<Rightarrow> exc + unit" where
  "raise_for_status r =
     (if 200 \<le> status_code r \<and> status_code r < 300 then Inr () else Inl (status_error r))"

text \<open>
  What the manager takes from outside: the class of its connection records, \<open>repr\<close> of
  a value, the servers (the reply to a request, given the requests sent before it) and
  the values of \<open>random.random()\<close>.
\<close>

record runtime =
  conn_cls :: conn_class
  py_repr :: "pyval \<Rightarrow> string"
  net :: "request list \<Rightarrow> request \<Rightarrow> http_reply"
  random :: "nat \<Rightarrow> real"

text \<open>\<open>str(v)\<close>, as an f-string and \<open>str(e)\<close> use it: a string is itself.\<close>

definition py_str :: "runtime \<Rightarrow> pyval \<Rightarrow> string" where
  "py_str rt v = (case v of PStr s \<Rightarrow> s | _ \<Rightarrow> py_repr rt v)"

section \<open>client/config.py\<close>

record ServerConfig =
  name :: string
  transport :: string
  host :: pyval
  port :: pyval
  command :: pyval
  args :: pyval

definition http_server :: "string \<Rightarrow> string \<Rightarrow> int \<Rightarrow> ServerConfig" where
  "http_server n h p =
     \<lparr>name = n, transport = ''http'', host = PStr h, port = PInt p,
      command = PNone, args = PNone\<rparr>"

text \<open>The \<open>servers\<close> dictionary \<open>load_config\<close> builds.\<close>

definition load_config_servers :: "(string \<times> ServerConfig) list" where
  "load_config_servers =
     [(''personal_assistant'', http_server ''personal_assistant'' ''127.0.0.1'' 8001),
      (''knowledge_base'', http_server ''knowledge_base'' ''127.0.0.1'' 8002)]"

section \<open>client/http\_mcp\_manager.py\<close>

text \<open>
  The three dictionaries of an \<open>HTTPMCPManager\<close>, the breakers its three decorated
  methods share, and the requests sent so far.  The \<open>httpx\<close> client itself is not
  modelled: \<open>_ensure_http_client\<close> is taken to return, and log calls are left out.
\<close>

record manager =
  connections :: "(string \<times> pyobj) list"
  base_urls :: "(string \<times> string) list"
  capabilities_cache :: "(string \<times> pyval) list"
  call_tool_breaker :: CircuitBreaker
  read_resource_breaker :: CircuitBreaker
  get_prompt_breaker :: CircuitBreaker
  sent :: "request list"

definition HTTPMCPManager_init :: manager where
  "HTTPMCPManager_init =
     \<lparr>connections = [], base_urls = [], capabilities_cache = [],
      call_tool_breaker = CircuitBreaker_init 3 30 Exception_class,
      read_resource_breaker = CircuitBreaker_init 3 30 Exception_class,
      get_prompt_breaker = CircuitBreaker_init 3 30 Exception_class,
      sent = []\<rparr>"

definition send :: "runtime \<Rightarrow> request \<Rightarrow> manager \<Rightarrow> http_reply \<times> manager" where
  "send rt req self = (net rt (sent self) req, self\<lparr>sent := sent self @ [req]\<rparr>)"

text \<open>\<open>self.base_urls[server_name]\<close>.\<close>

definition base_url_of :: "runtime \<Rightarrow> manager \<Rightarrow> string \<Rightarrow> exc + string" where
  "base_url_of rt self server_name =
     (case map_of (base_urls self) server_name of
        None \<Rightarrow> Inl (Exc ''KeyError'' (py_repr rt (PStr server_name)))
      | Some u \<Rightarrow> Inr u)"

definition get_connection_status :: "manager \<Rightarrow> string \<Rightarrow> pyobj option" where
  "get_connection_status self server_name = map_of (connections self) server_name"

definition is_server_connected :: "runtime \<Rightarrow> manager \<Rightarrow> string \<Rightarrow> exc + bool" where
  "is_server_connected rt self server_name =
     (case map_of (connections self) server_name of
        None \<Rightarrow> Inr False
      | Some connection \<Rightarrow>
          (case call_is_connected (conn_cls rt) connection of
             Inl e \<Rightarrow> Inl e
           | Inr v \<Rightarrow> Inr (py_truthy v)))"

text \<open>
  The handler \<open>except Exception as e\<close> that \<open>connect_server\<close>, \<open>call_tool\<close>,
  \<open>read_resource\<close> and \<open>get_prompt\<close> share: if the server has a record, call its
  \<open>update_status\<close> with \<open>"error"\<close> and \<open>str(e)\<close>, then raise \<open>e\<close> again.  An
  exception raised by \<open>update_status\<close> takes the place of \<open>e\<close>.
\<close>

definition record_error :: "runtime \<Rightarrow> manager \<Rightarrow> string \<Rightarrow> exc \<Rightarrow> (exc + 'a) \<times> manager" where
  "record_error rt self server_name e =
     (case map_of (connections self) server_name of
        None \<Rightarrow> (Inl e, self)
      | Some connection \<Rightarrow>
          (case call_update_status (conn_cls rt) connection
                  (PStr (status_value ERROR)) (PStr (exc_msg e)) of
             Inl e' \<Rightarrow> (Inl e', self)
           | Inr connection' \<Rightarrow>
               (Inl e,
                self\<lparr>connections := AList.update server_name connection' (connections self)\<rparr>)))"

definition health_check_server :: "runtime \<Rightarrow> string \<Rightarrow> manager \<Rightarrow> (exc + unit) \<times> manager" where
  "health_check_server rt server_name self =
     (case base_url_of rt self server_name of
        Inl e \<Rightarrow> (Inl e, self)
      | Inr base_url \<Rightarrow>
          (case send rt (GET (base_url @ ''/health'')) self of
             (Refused e, self') \<Rightarrow> (Inl e, self')
           | (Answered r, self') \<Rightarrow>
               (case raise_for_status r of
                  Inl e \<Rightarrow> (Inl e, self')
                | Inr _ \<Rightarrow>
                    (case json_body r of
                       Inl e \<Rightarrow> (Inl e, self')
                     | Inr health_data \<Rightarrow> (Inr (), self')))))"

text \<open>
  One of the three calls of introspection: \<open>GET\<close>, \<open>raise_for_status()\<close>,
  \<open>json()\<close>, and \<open>get(key, [])\<close> on the decoded body.
\<close>

definition get_listing ::
  "runtime \<Rightarrow> string \<Rightarrow> string \<Rightarrow> manager \<Rightarrow> (exc + pyval) \<times> manager" where
  "get_listing rt base_url key self =
     (case send rt (GET (base_url @ ''/'' @ key)) self of
        (Refused e, self') \<Rightarrow> (Inl e, self')
      | (Answered r, self') \<Rightarrow>
          (case raise_for_status r of
             Inl e \<Rightarrow> (Inl e, self')
           | Inr _ \<Rightarrow>
               (case json_body r of
                  Inl e \<Rightarrow> (Inl e, self')
                | Inr data \<Rightarrow> (py_get data key (PList []), self'))))"

text \<open>The three calls in the order of the source: tools, resources, prompts.\<close>

definition fetch_capabilities ::
  "runtime \<Rightarrow> string \<Rightarrow> manager \<Rightarrow> (exc + pyval) \<times> manager" where
  "fetch_capabilities rt base_url self =
     (case get_listing rt base_url ''tools'' self of
        (Inl e, self1) \<Rightarrow> (Inl e, self1)
      | (Inr tools, self1) \<Rightarrow>
          (case get_listing rt base_url ''resources'' self1 of
             (Inl e, self2) \<Rightarrow> (Inl e, self2)
           | (Inr resources, self2) \<Rightarrow>
               (case get_listing rt base_url ''prompts'' self2 of
                  (Inl e, self3) \<Rightarrow> (Inl e, self3)
                | (Inr prompts, self3) \<Rightarrow>
                    (Inr (PDict [(''tools'', tools), (''resources'', resources),
                                 (''prompts'', prompts)]), self3))))"

text \<open>
  The three \<open>len(capabilities.get(..., []))\<close> of the final log message, which raise on a
  listing that has no length.
\<close>

definition log_counts :: "pyval \<Rightarrow> exc + unit" where
  "log_counts capabilities =
     (case py_get capabilities ''tools'' (PList []) of
        Inl e \<Rightarrow> Inl e
      | Inr t \<Rightarrow>
          (case py_len t of
             Inl e \<Rightarrow> Inl e
           | Inr _ \<Rightarrow>
               (case py_get capabilities ''resources'' (PList []) of
                  Inl e \<Rightarrow> Inl e
                | Inr r \<Rightarrow>
                    (case py_len r of
                       Inl e \<Rightarrow> Inl e
                     | Inr _ \<Rightarrow>
                         (case py_get capabilities ''prompts'' (PList []) of
                            Inl e \<Rightarrow> Inl e
                          | Inr p \<Rightarrow>
                              (case py_len p of Inl e \<Rightarrow> Inl e | Inr _ \<Rightarrow> Inr ()))))))"

text \<open>The body of \<open>_introspect_server\<close>, before the retry decorator.\<close>

definition introspect_body :: "runtime \<Rightarrow> string \<Rightarrow> manager \<Rightarrow> (exc + unit) \<times> manager" where
  "introspect_body rt server_name self =
     (case base_url_of rt self server_name of
        Inl e \<Rightarrow> (Inl e, self)
      | Inr base_url \<Rightarrow>
          (case fetch_capabilities rt base_url self of
             (Inl e, self1) \<Rightarrow> (Inl e, self1)
           | (Inr capabilities, self1) \<Rightarrow>
               (let self2 = self1\<lparr>capabilities_cache :=
                              AList.update server_name capabilities (capabilities_cache self1)\<rparr>;
                    self3 = (case map_of (connections self2) server_name of
                               None \<Rightarrow> self2
                             | Some connection \<Rightarrow>
                                 self2\<lparr>connections :=
                                   AList.update server_name
                                     (AList.update ''capabilities'' capabilities connection)
                                     (connections self2)\<rparr>)
                in (log_counts capabilities, self3))))"

text \<open>\<open>@retry_with_exponential_backoff(RetryConfig(max_attempts=3))\<close>.\<close>

definition introspect_server :: "runtime \<Rightarrow> string \<Rightarrow> manager \<Rightarrow> (exc + unit) \<times> manager" where
  "introspect_server rt server_name self =
     (let r = retry_with_exponential_backoff (RetryConfig_defaults\<lparr>max_attempts := 3\<rparr>)
                (introspect_body rt server_name) (random rt) self
      in (outcome r, final r))"

text \<open>The keyword arguments \<open>connect_server\<close> gives to \<open>MCPConnection\<close>.\<close>

definition connect_kwargs :: "string \<Rightarrow> ServerConfig \<Rightarrow> (string \<times> pyval) list" where
  "connect_kwargs server_name server_config =
     [(''server_name'', PStr server_name), (''transport_type'', PStr ''http''),
      (''connection_status'', PStr (status_value CONNECTING)),
      (''host'', host server_config), (''port'', port server_config)]"

definition connect_server ::
  "runtime \<Rightarrow> string \<Rightarrow> ServerConfig \<Rightarrow> manager \<Rightarrow> (exc + unit) \<times> manager" where
  "connect_server rt server_name server_config self =
     (case construct (conn_cls rt) (connect_kwargs server_name server_config) of
        Inl e \<Rightarrow> record_error rt self server_name e
      | Inr connection \<Rightarrow>
          (let self1 = self\<lparr>connections := AList.update server_name connection (connections self)\<rparr>;
               base_url = ''http://'' @ py_str rt (host server_config) @ '':''
                            @ py_str rt (port server_config);
               self2 = self1\<lparr>base_urls := AList.update server_name base_url (base_urls self1)\<rparr>
           in case health_check_server rt server_name self2 of
                (Inl e, self3) \<Rightarrow> record_error rt self3 server_name e
              | (Inr _, self3) \<Rightarrow>
                  (case introspect_server rt server_name self3 of
                     (Inl e, self4) \<Rightarrow> record_error rt self4 server_name e
                   | (Inr _, self4) \<Rightarrow>
                       (case map_of (connections self4) server_name of
                          None \<Rightarrow> (Inr (), self4)
                        | Some connection' \<Rightarrow>
                            (case call_update_status (conn_cls rt) connection'
                                    (PStr (status_value CONNECTED)) PNone of
                               Inl e \<Rightarrow> record_error rt self4 server_name e
                             | Inr connection'' \<Rightarrow>
                                 (Inr (),
                                  self4\<lparr>connections :=
                                    AList.update server_name connection''
                                      (connections self4)\<rparr>))))))"

text \<open>
  The loop of \<open>initialize\<close> over \<open>config.servers.items()\<close>: an exception of
  \<open>connect_server\<close> is logged and the loop goes on.
\<close>

fun connect_all :: "runtime \<Rightarrow> (string \<times> ServerConfig) list \<Rightarrow> manager \<Rightarrow> manager" where
  "connect_all rt [] self = self"
| "connect_all rt ((server_name, server_config) # rest) self =
     (case connect_server rt server_name server_config self of
        (Inl e, self') \<Rightarrow> connect_all rt rest self'
      | (Inr _, self') \<Rightarrow> connect_all rt rest self')"

text \<open>
  \<open>initialize\<close>.  \<open>config\<close> is what \<open>get_config()\<close> does: it returns the servers, or
  \<open>validate_config\<close> raises.
\<close>

definition initialize ::
  "runtime \<Rightarrow> exc + (string \<times> ServerConfig) list \<Rightarrow> manager \<Rightarrow> (exc + unit) \<times> manager" where
  "initialize rt config self =
     (case config of
        Inl e \<Rightarrow> (Inl e, self)
      | Inr servers \<Rightarrow> (Inr (), connect_all rt servers self))"

text \<open>
  \<open>disconnect_server\<close> never raises: an exception inside its \<open>try\<close> is logged, and the
  statements after the one that raised are not run.
\<close>

definition disconnect_server :: "runtime \<Rightarrow> string \<Rightarrow> manager \<Rightarrow> manager" where
  "disconnect_server rt server_name self =
     (case (case map_of (connections self) server_name of
              None \<Rightarrow> Inr self
            | Some connection \<Rightarrow>
                (case call_update_status (conn_cls rt) connection
                        (PStr (status_value DISCONNECTED)) PNone of
                   Inl e \<Rightarrow> Inl e
                 | Inr connection' \<Rightarrow>
                     Inr (self\<lparr>connections :=
                            AList.update server_name connection' (connections self)\<rparr>))) of
        Inl e \<Rightarrow> self
      | Inr self1 \<Rightarrow>
          self1\<lparr>base_urls := AList.delete server_name (base_urls self1),
                capabilities_cache := AList.delete server_name (capabilities_cache self1)\<rparr>)"

text \<open>
  What \<open>call_tool\<close>, \<open>read_resource\<close> and \<open>get_prompt\<close> do between the decorator
  and the return, which differs only in the path, the payload and the key of the result:
  the check of the connection and the look-up of the base URL, then inside \<open>try\<close> the
  \<open>POST\<close>, \<open>raise_for_status()\<close>, \<open>json()\<close>, the assignment to \<open>last_ping\<close>
  (\<open>t_ping\<close> is the reading of \<open>datetime.utcnow()\<close>) and the test of \<open>success\<close>.
\<close>

definition not_connected :: "string \<Rightarrow> exc" where
  "not_connected server_name =
     Exc ''ConnectionError'' (''Server '' @ server_name @ '' is not connected'')"

definition set_last_ping :: "string \<Rightarrow> real \<Rightarrow> manager \<Rightarrow> manager" where
  "set_last_ping server_name t_ping self =
     (case map_of (connections self) server_name of
        None \<Rightarrow> self
      | Some connection \<Rightarrow>
          self\<lparr>connections :=
            AList.update server_name (AList.update ''last_ping'' (PTime t_ping) connection)
              (connections self)\<rparr>)"

definition post_call ::
  "runtime \<Rightarrow> string \<Rightarrow> pyval \<Rightarrow> string \<Rightarrow> real \<Rightarrow> string \<Rightarrow> manager \<Rightarrow>
   (exc + pyval) \<times> manager" where
  "post_call rt path payload result_key t_ping server_name self =
     (case is_server_connected rt self server_name of
        Inl e \<Rightarrow> (Inl e, self)
      | Inr is_conn \<Rightarrow>
          if \<not> is_conn then (Inl (not_connected server_name), self)
          else
            (case base_url_of rt self server_name of
               Inl e \<Rightarrow> (Inl e, self)
             | Inr base_url \<Rightarrow>
                 (case send rt (POST (base_url @ path) payload) self of
                    (Refused e, self1) \<Rightarrow> record_error rt self1 server_name e
                  | (Answered r, self1) \<Rightarrow>
                      (case raise_for_status r of
                         Inl e \<Rightarrow> record_error rt self1 server_name e
                       | Inr _ \<Rightarrow>
                           (case json_body r of
                              Inl e \<Rightarrow> record_error rt self1 server_name e
                            | Inr result \<Rightarrow>
                                (let self2 = set_last_ping server_name t_ping self1
                                 in case py_get result ''success'' PNone of
                                      Inl e \<Rightarrow> record_error rt self2 server_name e
                                    | Inr success \<Rightarrow>
                                        if py_truthy success
                                        then (py_get result result_key (PStr []), self2)
                                        else
                                          (case py_get result ''error'' (PStr ''Unknown error'') of
                                             Inl e \<Rightarrow> record_error rt self2 server_name e
                                           | Inr message \<Rightarrow>
                                               record_error rt self2 server_name
                                                 (Exc ''RuntimeError'' (py_str rt message)))))))))"

definition call_tool_body ::
  "runtime \<Rightarrow> real \<Rightarrow> string \<Rightarrow> string \<Rightarrow> pyval \<Rightarrow> manager \<Rightarrow> (exc + pyval) \<times> manager" where
  "call_tool_body rt t_ping server_name tool_name arguments =
     post_call rt ''/tools/call'' (PDict [(''name'', PStr tool_name), (''arguments'', arguments)])
       ''result'' t_ping server_name"

definition read_resource_body ::
  "runtime \<Rightarrow> real \<Rightarrow> string \<Rightarrow> string \<Rightarrow> manager \<Rightarrow> (exc + pyval) \<times> manager" where
  "read_resource_body rt t_ping server_name uri =
     post_call rt ''/resources/read'' (PDict [(''uri'', PStr uri)]) ''content'' t_ping server_name"

definition get_prompt_body ::
  "runtime \<Rightarrow> real \<Rightarrow> string \<Rightarrow> string \<Rightarrow> pyval \<Rightarrow> manager \<Rightarrow> (exc + pyval) \<times> manager" where
  "get_prompt_body rt t_ping server_name prompt_name arguments =
     post_call rt ''/prompts/get''
       (PDict [(''name'', PStr prompt_name),
               (''arguments'', if py_truthy arguments then arguments else PDict [])])
       ''prompt'' t_ping server_name"

text \<open>
  The three methods as decorated with \<open>@CircuitBreaker(failure_threshold=3,
  recovery_timeout=30.0)\<close>: each decorator is one breaker, made when the class is
  defined, through which every call of the method goes.  \<open>t_gate\<close>, \<open>t_ping\<close> and
  \<open>t_fail\<close> are the readings of the clock during the call.
\<close>

definition call_tool ::
  "runtime \<Rightarrow> real \<Rightarrow> real \<Rightarrow> real \<Rightarrow> string \<Rightarrow> string \<Rightarrow> pyval \<Rightarrow> manager \<Rightarrow>
   (exc + pyval) \<times> manager" where
  "call_tool rt t_gate t_ping t_fail server_name tool_name arguments self =
     (let r = CircuitBreaker_call (call_tool_breaker self)
                (call_tool_body rt t_ping server_name tool_name arguments) t_gate t_fail self
      in (cb_result r, (cb_world r)\<lparr>call_tool_breaker := cb_after r\<rparr>))"

definition read_resource ::
  "runtime \<Rightarrow> real \<Rightarrow> real \<Rightarrow> real \<Rightarrow> string \<Rightarrow> string \<Rightarrow> manager \<Rightarrow>
   (exc + pyval) \<times> manager" where
  "read_resource rt t_gate t_ping t_fail server_name uri self =
     (let r = CircuitBreaker_call (read_resource_breaker self)
                (read_resource_body rt t_ping server_name uri) t_gate t_fail self
      in (cb_result r, (cb_world r)\<lparr>read_resource_breaker := cb_after r\<rparr>))"

definition get_prompt ::
  "runtime \<Rightarrow> real \<Rightarrow> real \<Rightarrow> real \<Rightarrow> string \<Rightarrow> string \<Rightarrow> pyval \<Rightarrow> manager \<Rightarrow>
   (exc + pyval) \<times> manager" where
  "get_prompt rt t_gate t_ping t_fail server_name prompt_name arguments self =
     (let r = CircuitBreaker_call (get_prompt_breaker self)
                (get_prompt_body rt t_ping server_name prompt_name arguments) t_gate t_fail self
      in (cb_result r, (cb_world r)\<lparr>get_prompt_breaker := cb_after r\<rparr>))"

text \<open>
  The loop of the bulk form of \<open>refresh_capabilities\<close> over the keys of
  \<open>self.base_urls\<close>: the check of the connection is outside the \<open>try\<close>, the
  introspection inside.
\<close>

fun refresh_each :: "runtime \<Rightarrow> string list \<Rightarrow> manager \<Rightarrow> (exc + unit) \<times> manager" where
  "refresh_each rt [] self = (Inr (), self)"
| "refresh_each rt (server_name # rest) self =
     (case is_server_connected rt self server_name of
        Inl e \<Rightarrow> (Inl e, self)
      | Inr is_conn \<Rightarrow>
          if is_conn
          then (case introspect_server rt server_name self of
                  (Inl e, self') \<Rightarrow> refresh_each rt rest self'
                | (Inr _, self') \<Rightarrow> refresh_each rt rest self')
          else refresh_each rt rest self)"


text \<open>
  The loop of \<open>get_available_tools\<close> over \<open>self.capabilities_cache.items()\<close>;
  \<open>all_tools\<close> is the dictionary built so far.
\<close>

fun collect_tools ::
  "runtime \<Rightarrow> manager \<Rightarrow> (string \<times> pyval) list \<Rightarrow> (string \<times> pyval) list \<Rightarrow>
   exc + (string \<times> pyval) list" where
  "collect_tools rt self [] all_tools = Inr all_tools"
| "collect_tools rt self ((server_name, capabilities) # rest) all_tools =
     (case is_server_connected rt self server_name of
        Inl e \<Rightarrow> Inl e
      | Inr is_conn \<Rightarrow>
          if is_conn
          then (case py_get capabilities ''tools'' (PList []) of
                  Inl e \<Rightarrow> Inl e
                | Inr tools \<Rightarrow>
                    collect_tools rt self rest (AList.update server_name tools all_tools))
          else collect_tools rt self rest all_tools)"

definition get_available_tools :: "runtime \<Rightarrow> manager \<Rightarrow> exc + (string \<times> pyval) list" where
  "get_available_tools rt self = collect_tools rt self (capabilities_cache self) []"

text \<open>
  Two managers with the same three dictionaries and the same requests sent: only the
  breakers may differ.
\<close>

definition same_dicts :: "manager \<Rightarrow> manager \<Rightarrow> bool" where
  "same_dicts s s' \<longleftrightarrow>
     connections s' = connections s \<and> base_urls s' = base_urls s
     \<and> capabilities_cache s' = capabilities_cache s \<and> sent s' = sent s"

text \<open>An attribute of the connection record of a server, if there is one.\<close>

definition attribute :: "manager \<Rightarrow> string \<Rightarrow> string \<Rightarrow> pyval option" where
  "attribute self server_name a =
     (case map_of (connections self) server_name of None \<Rightarrow> None | Some c \<Rightarrow> map_of c a)"




section \<open>Test operations\<close>

text \<open>
  An operation that fails on its first \<open>k\<close> calls and succeeds afterwards; its state
  counts the calls.
\<close>

definition flaky :: "nat \<Rightarrow> nat \<Rightarrow> (exc + string) \<times> nat" where
  "flaky k n =
     (if n < k
      then Inl (Exc ''ConnectError'' (if n = 0 then ''first'' else if n = 1 then ''second'' else ''third''))
      else Inr ''ok'', Suc n)"


text \<open>A breaker as the manager's decorators build it, and three failing calls through it.\<close>

definition cb0 :: CircuitBreaker where
  "cb0 = CircuitBreaker_init 3 30 Exception_class"

definition tripped :: "nat \<Rightarrow> (string, nat) guarded" where
  "tripped k =
     (let r1 = CircuitBreaker_call cb0 (flaky k) 0 1 0;
          r2 = CircuitBreaker_call (cb_after r1) (flaky k) 2 3 (cb_world r1)
      in CircuitBreaker_call (cb_after r2) (flaky k) 4 5 (cb_world r2))"


section \<open>Sample servers and managers\<close>

text \<open>
  \<open>repr\<close> on the values the samples print.
\<close>

definition sample_repr :: "pyval \<Rightarrow> string" where
  "sample_repr v =
     (case v of
        PNone \<Rightarrow> ''None''
      | PInt i \<Rightarrow> (if i = 1 then ''1'' else if i = 2 then ''2'' else ''3'')
      | PStr s \<Rightarrow> quoted s
      | _ \<Rightarrow> ''...'')"

text \<open>
  Three servers at \<open>http://a:1\<close>, \<open>http://b:2\<close> and \<open>http://c:3\<close>.  Every \<open>GET\<close> is
  answered with status 200 and one body that has all the keys, except \<open>/prompts\<close> of the
  third server, which answers 500.  A \<open>POST\<close> is answered according to the \<open>name\<close> in
  its payload: \<open>down\<close> times out, \<open>busy\<close> gets status 503, \<open>fail\<close> gets an
  envelope with \<open>success\<close> false and the error \<open>boom\<close>, anything else an envelope
  with \<open>success\<close> true.
\<close>

definition sample_status_error :: exc where
  "sample_status_error = Exc ''HTTPStatusError'' ''Server error 500''"

definition sample_listing :: pyval where
  "sample_listing =
     PDict [(''status'', PStr ''healthy''),
            (''tools'', PList [PDict [(''name'', PStr ''add_task'')]]),
            (''resources'', PList []),
            (''prompts'', PList [])]"

definition answer :: "int \<Rightarrow> pyval \<Rightarrow> http_reply" where
  "answer code body =
     Answered \<lparr>status_code = code, json_body = Inr body, status_error = sample_status_error\<rparr>"

definition sample_net :: "request list \<Rightarrow> request \<Rightarrow> http_reply" where
  "sample_net history req =
     (case req of
        GET url \<Rightarrow>
          if url = ''http://c:3/prompts'' then answer 500 (PDict []) else answer 200 sample_listing
      | POST url payload \<Rightarrow>
          if py_get payload ''name'' PNone = Inr (PStr ''down'')
          then Refused (Exc ''ConnectTimeout'' ''timed out'')
          else if py_get payload ''name'' PNone = Inr (PStr ''busy'')
          then answer 503 (PDict [])
          else if py_get payload ''name'' PNone = Inr (PStr ''fail'')
          then answer 200 (PDict [(''success'', PBool False), (''result'', PStr []),
                                  (''error'', PStr ''boom'')])
          else answer 200 (PDict [(''success'', PBool True), (''result'', PStr ''done''),
                                  (''error'', PNone)]))"

text \<open>The manager with the dataclass of shared/models.py, as the repository runs it.\<close>

definition src_runtime :: runtime where
  "src_runtime =
     \<lparr>conn_cls = MCPConnection, py_repr = sample_repr, net = sample_net, random = (\<lambda>n. 0)\<rparr>"

text \<open>A set of capabilities as an introspection stores it.\<close>

definition sample_capabilities :: pyval where
  "sample_capabilities =
     PDict [(''tools'', PList [PDict [(''name'', PStr ''add_task'')]]),
            (''resources'', PList []),
            (''prompts'', PList [])]"

text \<open>
  An instance of the dataclass of shared/models.py, as its own constructor builds it from
  \<open>name\<close>, \<open>host\<close>, \<open>port\<close> and \<open>status\<close>.
\<close>

definition dataclass_record :: "string \<Rightarrow> string \<Rightarrow> int \<Rightarrow> ConnectionStatus \<Rightarrow> pyobj" where
  "dataclass_record n h p st =
     [(''name'', PStr n), (''host'', PStr h), (''port'', PInt p), (''status'', PStatus st),
      (''error_message'', PNone), (''tools'', PList []), (''resources'', PList []),
      (''prompts'', PList [])]"

text \<open>
  A manager that has an older entry for \<open>C\<close> in its cache, from an earlier
  introspection.
\<close>

definition stale_c :: manager where
  "stale_c =
     HTTPMCPManager_init
       \<lparr>connections := [(''C'', dataclass_record ''C'' ''c'' 3 CONNECTED)],
        base_urls := [(''C'', ''http://c:3'')],
        capabilities_cache := [(''C'', PDict [(''tools'', PList [])])]\<rparr>"

text \<open>Three calls of \<open>call_tool\<close> in a row, at the times 0 to 5.\<close>

definition thrice :: "runtime \<Rightarrow> string \<Rightarrow> string \<Rightarrow> manager \<Rightarrow> manager" where
  "thrice rt server_name tool_name self =
     (let s1 = snd (call_tool rt 0 0 1 server_name tool_name (PDict []) self);
          s2 = snd (call_tool rt 2 2 3 server_name tool_name (PDict []) s1)
      in snd (call_tool rt 4 4 5 server_name tool_name (PDict []) s2))"

text \<open>The breaker after three failures, the last at time 5.\<close>

definition tripped_breaker :: CircuitBreaker where
  "tripped_breaker =
     \<lparr>failure_threshold = 3, recovery_timeout = 30, expected_exception = Exception_class,
      failure_count = 3, last_failure_time = Some 5, state = OPEN\<rparr>"



text \<open>A server whose listings are all \<open>{"tools": null}\<close>.\<close>

definition null_tools_net :: "request list \<Rightarrow> request \<Rightarrow> http_reply" where
  "null_tools_net history req = answer 200 (PDict [(''tools'', PNone)])"

text \<open>
  An operation that always raises \<open>Exception("Circuit breaker is OPEN")\<close> itself, as one
  does that calls through another breaker.
\<close>

definition raises_open :: "nat \<Rightarrow> (exc + string) \<times> nat" where
  "raises_open n = (Inl (Exc ''Exception'' ''Circuit breaker is OPEN''), Suc n)"

section \<open>Properties of the retry decorator\<close>

lemma upt3: "[0..<3] = [0, 1, 2::nat]"
  by (simp add: upt_rec numeral_eq_Suc)

text \<open>
  C2: with \<open>max_attempts = 3\<close>, \<open>base_delay = 1.0\<close>, \<open>exponential_base = 2.0\<close> and
  no jitter (and a \<open>max_delay\<close> of at least 2 seconds, as the default 30 is), an
  operation failing on every attempt is called three times with sleeps of 1 and 2 seconds
  in between, and the exception of the third attempt is raised as it is; an attempt that
  succeeds ends the run with its result, with no further call and no further sleep.
\<close>

theorem retry_three_attempts:
  assumes "max_attempts config = 3" and "base_delay config = 1"
    and "exponential_base config = 2" and "\<not> jitter config" and "2 \<le> max_delay config"
  shows "(\<forall>e1 s1 e2 s2 e3 s3.
            func s0 = (Inl e1, s1) \<and> func s1 = (Inl e2, s2) \<and> func s2 = (Inl e3, s3) \<longrightarrow>
            retry_with_exponential_backoff config func rnd s0 =
              \<lparr>outcome = Inl e3,
               trace = [Attempt 0, Sleep 1, Attempt 1, Sleep 2, Attempt 2], final = s3\<rparr>)
       \<and> (\<forall>v s1. func s0 = (Inr v, s1) \<longrightarrow>
            retry_with_exponential_backoff config func rnd s0 =
              \<lparr>outcome = Inr v, trace = [Attempt 0], final = s1\<rparr>)
       \<and> (\<forall>e1 s1 v s2. func s0 = (Inl e1, s1) \<and> func s1 = (Inr v, s2) \<longrightarrow>
            retry_with_exponential_backoff config func rnd s0 =
              \<lparr>outcome = Inr v, trace = [Attempt 0, Sleep 1, Attempt 1], final = s2\<rparr>)
       \<and> (\<forall>e1 s1 e2 s2 v s3.
            func s0 = (Inl e1, s1) \<and> func s1 = (Inl e2, s2) \<and> func s2 = (Inr v, s3) \<longrightarrow>
            retry_with_exponential_backoff config func rnd s0 =
              \<lparr>outcome = Inr v,
               trace = [Attempt 0, Sleep 1, Attempt 1, Sleep 2, Attempt 2], final = s3\<rparr>)"
  using assms
  by (simp add: retry_with_exponential_backoff_def upt3 backoff_delay_def raise_last_def)

theorem retry_three_attempts_witness:
  "retry_with_exponential_backoff (RetryConfig_defaults\<lparr>jitter := False\<rparr>) (flaky 3) (\<lambda>n. 0) 0 =
     \<lparr>outcome = Inl (Exc ''ConnectError'' ''third''),
      trace = [Attempt 0, Sleep 1, Attempt 1, Sleep 2, Attempt 2], final = 3\<rparr>
   \<and> retry_with_exponential_backoff (RetryConfig_defaults\<lparr>jitter := False\<rparr>) (flaky 0) (\<lambda>n. 0) 0 =
     \<lparr>outcome = Inr ''ok'', trace = [Attempt 0], final = 1\<rparr>
   \<and> retry_with_exponential_backoff (RetryConfig_defaults\<lparr>jitter := False\<rparr>) (flaky 1) (\<lambda>n. 0) 0 =
     \<lparr>outcome = Inr ''ok'', trace = [Attempt 0, Sleep 1, Attempt 1], final = 2\<rparr>
   \<and> retry_with_exponential_backoff (RetryConfig_defaults\<lparr>jitter := False\<rparr>) (flaky 2) (\<lambda>n. 0) 0 =
     \<lparr>outcome = Inr ''ok'', trace = [Attempt 0, Sleep 1, Attempt 1, Sleep 2, Attempt 2], final = 3\<rparr>"
  using retry_three_attempts [of "RetryConfig_defaults\<lparr>jitter := False\<rparr>" "flaky 3" 0 "\<lambda>n. 0"]
    retry_three_attempts [of "RetryConfig_defaults\<lparr>jitter := False\<rparr>" "flaky 0" 0 "\<lambda>n. 0"]
    retry_three_attempts [of "RetryConfig_defaults\<lparr>jitter := False\<rparr>" "flaky 1" 0 "\<lambda>n. 0"]
    retry_three_attempts [of "RetryConfig_defaults\<lparr>jitter := False\<rparr>" "flaky 2" 0 "\<lambda>n. 0"]
  by (simp add: RetryConfig_defaults_def flaky_def)

section \<open>Properties of the circuit breaker\<close>

lemma call_rejected:
  "state cb = OPEN \<Longrightarrow> last_failure_time cb = Some t0 \<Longrightarrow> t - t0 < recovery_timeout cb \<Longrightarrow>
   CircuitBreaker_call cb func t tf s =
     \<lparr>cb_result = Inl CircuitOpen, cb_after = cb, cb_world = s, cb_invoked = False\<rparr>"
  by (simp add: CircuitBreaker_call_def admit_def should_attempt_reset_def)

lemma call_failure_step:
  assumes "cb_inv cb" and "r = CircuitBreaker_call cb func g f s"
    and "cb_invoked r" and "cb_result r = Inl e" and "expected_exception cb e"
  shows "cb_inv (cb_after r) \<and> failure_count (cb_after r) = failure_count cb + 1
       \<and> last_failure_time (cb_after r) = Some f
       \<and> failure_threshold (cb_after r) = failure_threshold cb
       \<and> recovery_timeout (cb_after r) = recovery_timeout cb
       \<and> expected_exception (cb_after r) = expected_exception cb"
  using assms
  by (auto simp: CircuitBreaker_call_def admit_def on_failure_def on_success_def cb_inv_def Let_def
           split: sum.splits prod.splits if_splits)

lemma call_trial:
  assumes "state cb = OPEN" and "last_failure_time cb = Some t0"
    and "recovery_timeout cb \<le> t - t0" and "failure_threshold cb \<le> failure_count cb"
    and "r = CircuitBreaker_call cb func t tf s"
  shows "admit cb t = Inr (cb\<lparr>state := HALF_OPEN\<rparr>) \<and> cb_invoked r
       \<and> (\<forall>v. cb_result r = Inr v \<longrightarrow> state (cb_after r) = CLOSED \<and> failure_count (cb_after r) = 0)
       \<and> (\<forall>e. cb_result r = Inl e \<and> expected_exception cb e \<longrightarrow>
             state (cb_after r) = OPEN \<and> last_failure_time (cb_after r) = Some tf
             \<and> recovery_timeout (cb_after r) = recovery_timeout cb)"
  using assms
  by (auto simp: CircuitBreaker_call_def admit_def should_attempt_reset_def on_failure_def
                 on_success_def Let_def split: sum.splits prod.splits)

text \<open>
  C3, as amended: a breaker with \<open>failure_threshold = 3\<close> is open after three
  consecutive failures of the wrapped operation.  While less than \<open>recovery_timeout\<close>
  has passed since the last failure, every call raises the plain
  \<open>Exception("Circuit breaker is OPEN")\<close> and the operation is not called.  Once the
  timeout has elapsed the next call is let through half-open: if it succeeds the breaker
  is closed with a failure count of 0, if it fails the breaker is open again and rejects
  calls until the timeout has elapsed anew.
\<close>

theorem breaker_threshold_three:
  fixes func :: "'s \<Rightarrow> (exc + 'a) \<times> 's"
  assumes thr: "failure_threshold cb = 3" and inv: "cb_inv cb"
    and r1: "r1 = CircuitBreaker_call cb func g1 f1 s0"
    and r2: "r2 = CircuitBreaker_call (cb_after r1) func g2 f2 (cb_world r1)"
    and r3: "r3 = CircuitBreaker_call (cb_after r2) func g3 f3 (cb_world r2)"
    and fail1: "cb_invoked r1 \<and> cb_result r1 = Inl e1 \<and> expected_exception cb e1"
    and fail2: "cb_invoked r2 \<and> cb_result r2 = Inl e2 \<and> expected_exception cb e2"
    and fail3: "cb_invoked r3 \<and> cb_result r3 = Inl e3 \<and> expected_exception cb e3"
  shows "state (cb_after r3) = OPEN
       \<and> (\<forall>t tf s. t - f3 < recovery_timeout cb \<longrightarrow> rejected (cb_after r3) func t tf s)
       \<and> (\<forall>t tf s r. recovery_timeout cb \<le> t - f3 \<and>
                     r = CircuitBreaker_call (cb_after r3) func t tf s \<longrightarrow>
            admit (cb_after r3) t = Inr ((cb_after r3)\<lparr>state := HALF_OPEN\<rparr>) \<and> cb_invoked r
            \<and> (\<forall>v. cb_result r = Inr v \<longrightarrow>
                  state (cb_after r) = CLOSED \<and> failure_count (cb_after r) = 0)
            \<and> (\<forall>e. cb_result r = Inl e \<and> expected_exception cb e \<longrightarrow>
                  state (cb_after r) = OPEN
                  \<and> (\<forall>t' tf' s'. t' - tf < recovery_timeout cb \<longrightarrow>
                        rejected (cb_after r) func t' tf' s')))"
proof -
  from call_failure_step [OF inv r1] fail1
  have a1: "cb_inv (cb_after r1)" "failure_count (cb_after r1) = failure_count cb + 1"
    "failure_threshold (cb_after r1) = 3" "recovery_timeout (cb_after r1) = recovery_timeout cb"
    "expected_exception (cb_after r1) = expected_exception cb"
    using thr by auto
  from call_failure_step [OF a1(1) r2] fail2 a1
  have a2: "cb_inv (cb_after r2)" "failure_count (cb_after r2) = failure_count cb + 2"
    "failure_threshold (cb_after r2) = 3" "recovery_timeout (cb_after r2) = recovery_timeout cb"
    "expected_exception (cb_after r2) = expected_exception cb"
    by auto
  from call_failure_step [OF a2(1) r3] fail3 a2
  have a3: "cb_inv (cb_after r3)" "failure_count (cb_after r3) = failure_count cb + 3"
    "failure_threshold (cb_after r3) = 3" "recovery_timeout (cb_after r3) = recovery_timeout cb"
    "expected_exception (cb_after r3) = expected_exception cb"
    "last_failure_time (cb_after r3) = Some f3"
    by auto
  from inv have "0 \<le> failure_count cb" by (simp add: cb_inv_def)
  with a3 have cnt: "failure_threshold (cb_after r3) \<le> failure_count (cb_after r3)" by simp
  have op: "state (cb_after r3) = OPEN"
    using r3 fail3 a2 cnt
    by (auto simp: CircuitBreaker_call_def admit_def on_failure_def on_success_def Let_def
             split: sum.splits prod.splits if_splits)
  have rej: "\<forall>t tf s. t - f3 < recovery_timeout cb \<longrightarrow> rejected (cb_after r3) func t tf s"
    using a3(4) by (simp add: rejected_def call_rejected [OF op a3(6)])
  have trial: "\<forall>t tf s r. recovery_timeout cb \<le> t - f3 \<and>
                     r = CircuitBreaker_call (cb_after r3) func t tf s \<longrightarrow>
            admit (cb_after r3) t = Inr ((cb_after r3)\<lparr>state := HALF_OPEN\<rparr>) \<and> cb_invoked r
            \<and> (\<forall>v. cb_result r = Inr v \<longrightarrow>
                  state (cb_after r) = CLOSED \<and> failure_count (cb_after r) = 0)
            \<and> (\<forall>e. cb_result r = Inl e \<and> expected_exception cb e \<longrightarrow>
                  state (cb_after r) = OPEN
                  \<and> (\<forall>t' tf' s'. t' - tf < recovery_timeout cb \<longrightarrow>
                        rejected (cb_after r) func t' tf' s'))"
  proof (intro allI impI, elim conjE)
    fix t tf s and r :: "('a, 's) guarded"
    assume el: "recovery_timeout cb \<le> t - f3"
      and r: "r = CircuitBreaker_call (cb_after r3) func t tf s"
    from el a3(4) have el': "recovery_timeout (cb_after r3) \<le> t - f3" by simp
    note ct = call_trial [OF op a3(6) el' cnt r]
    have "\<forall>e. cb_result r = Inl e \<and> expected_exception cb e \<longrightarrow>
                  state (cb_after r) = OPEN
                  \<and> (\<forall>t' tf' s'. t' - tf < recovery_timeout cb \<longrightarrow>
                        rejected (cb_after r) func t' tf' s')"
    proof (intro allI impI, elim conjE)
      fix e assume "cb_result r = Inl e" and "expected_exception cb e"
      with ct a3(4,5) have b: "state (cb_after r) = OPEN" "last_failure_time (cb_after r) = Some tf"
        "recovery_timeout (cb_after r) = recovery_timeout cb" by auto
      show "state (cb_after r) = OPEN
                  \<and> (\<forall>t' tf' s'. t' - tf < recovery_timeout cb \<longrightarrow>
                        rejected (cb_after r) func t' tf' s')"
        using b by (simp add: rejected_def call_rejected [OF b(1) b(2)])
    qed
    with ct show "admit (cb_after r3) t = Inr ((cb_after r3)\<lparr>state := HALF_OPEN\<rparr>) \<and> cb_invoked r
            \<and> (\<forall>v. cb_result r = Inr v \<longrightarrow>
                  state (cb_after r) = CLOSED \<and> failure_count (cb_after r) = 0)
            \<and> (\<forall>e. cb_result r = Inl e \<and> expected_exception cb e \<longrightarrow>
                  state (cb_after r) = OPEN
                  \<and> (\<forall>t' tf' s'. t' - tf < recovery_timeout cb \<longrightarrow>
                        rejected (cb_after r) func t' tf' s'))"
      by blast
  qed
  from op rej trial show ?thesis by blast
qed

lemma tripped_eq:
  "3 \<le> k \<Longrightarrow> tripped k =
     \<lparr>cb_result = Inl (Exc ''ConnectError'' ''third''),
      cb_after = \<lparr>failure_threshold = 3, recovery_timeout = 30, expected_exception = Exception_class,
                  failure_count = 3, last_failure_time = Some 5, state = OPEN\<rparr>,
      cb_world = 3, cb_invoked = True\<rparr>"
  by (simp add: tripped_def cb0_def CircuitBreaker_init_def CircuitBreaker_call_def admit_def
        flaky_def on_failure_def Exception_class_def Let_def)

theorem breaker_threshold_three_witness:
  "state (cb_after (tripped 4)) = OPEN
   \<and> rejected (cb_after (tripped 4)) (flaky 4) 20 21 3
   \<and> cb_invoked (CircuitBreaker_call (cb_after (tripped 4)) (flaky 4) 35 36 3)
   \<and> state (cb_after (CircuitBreaker_call (cb_after (tripped 4)) (flaky 4) 35 36 3)) = OPEN
   \<and> rejected (cb_after (CircuitBreaker_call (cb_after (tripped 4)) (flaky 4) 35 36 3)) (flaky 4) 60 61 4
   \<and> cb_invoked (CircuitBreaker_call (cb_after (tripped 3)) (flaky 3) 35 36 3)
   \<and> state (cb_after (CircuitBreaker_call (cb_after (tripped 3)) (flaky 3) 35 36 3)) = CLOSED
   \<and> failure_count (cb_after (CircuitBreaker_call (cb_after (tripped 3)) (flaky 3) 35 36 3)) = 0"
proof -
  have inv: "cb_inv cb0" and thr: "failure_threshold cb0 = 3" and rt: "recovery_timeout cb0 = 30"
    by (simp_all add: cb_inv_def cb0_def CircuitBreaker_init_def)
  define r1 where "r1 = CircuitBreaker_call cb0 (flaky 4) 0 1 0"
  define r2 where "r2 = CircuitBreaker_call (cb_after r1) (flaky 4) 2 3 (cb_world r1)"
  define r3 where "r3 = CircuitBreaker_call (cb_after r2) (flaky 4) 4 5 (cb_world r2)"
  have t4: "tripped 4 = r3" by (simp add: tripped_def r1_def r2_def r3_def Let_def)
  have f1: "cb_invoked r1 \<and> cb_result r1 = Inl (Exc ''ConnectError'' ''first'') \<and>
            expected_exception cb0 (Exc ''ConnectError'' ''first'')"
    by (simp add: r1_def cb0_def CircuitBreaker_init_def CircuitBreaker_call_def admit_def
        flaky_def on_failure_def Exception_class_def Let_def)
  have f2: "cb_invoked r2 \<and> cb_result r2 = Inl (Exc ''ConnectError'' ''second'') \<and>
            expected_exception cb0 (Exc ''ConnectError'' ''second'')"
    by (simp add: r1_def r2_def cb0_def CircuitBreaker_init_def CircuitBreaker_call_def admit_def
        flaky_def on_failure_def Exception_class_def Let_def)
  have f3: "cb_invoked r3 \<and> cb_result r3 = Inl (Exc ''ConnectError'' ''third'') \<and>
            expected_exception cb0 (Exc ''ConnectError'' ''third'')"
    using tripped_eq [of 4] by (simp add: t4 [symmetric] cb0_def CircuitBreaker_init_def Exception_class_def)
  note main = breaker_threshold_three [OF thr inv r1_def r2_def r3_def f1 f2 f3, unfolded rt]
  from main have a: "state (cb_after (tripped 4)) = OPEN"
    by (simp add: t4)
  from main have b: "rejected (cb_after (tripped 4)) (flaky 4) 20 21 3"
    by (simp add: t4)
  from main have c: "cb_invoked (CircuitBreaker_call (cb_after (tripped 4)) (flaky 4) 35 36 3)"
    by (simp add: t4)
  have rest: "state (cb_after (CircuitBreaker_call (cb_after (tripped 4)) (flaky 4) 35 36 3)) = OPEN
   \<and> rejected (cb_after (CircuitBreaker_call (cb_after (tripped 4)) (flaky 4) 35 36 3)) (flaky 4) 60 61 4
   \<and> cb_invoked (CircuitBreaker_call (cb_after (tripped 3)) (flaky 3) 35 36 3)
   \<and> state (cb_after (CircuitBreaker_call (cb_after (tripped 3)) (flaky 3) 35 36 3)) = CLOSED
   \<and> failure_count (cb_after (CircuitBreaker_call (cb_after (tripped 3)) (flaky 3) 35 36 3)) = 0"
    by (simp add: tripped_eq rejected_def CircuitBreaker_call_def admit_def
          should_attempt_reset_def flaky_def on_failure_def on_success_def
          Exception_class_def Let_def)
  from a b c rest show ?thesis by simp
qed

text \<open>
  C3 as stated fails in one point: the exception of a rejected call is no error of a kind
  of its own.  Its class is \<open>Exception\<close>, and a call that was let through to an
  operation raising the same exception ends with the very same result as a call that was
  rejected.
\<close>

theorem circuit_open_error_counterexample:
  "cb_result (CircuitBreaker_call tripped_breaker (flaky 9) 10 11 3)
     = Inl (Exc ''Exception'' ''Circuit breaker is OPEN'')
   \<and> \<not> cb_invoked (CircuitBreaker_call tripped_breaker (flaky 9) 10 11 3)
   \<and> cb_result (CircuitBreaker_call cb0 raises_open 0 1 0)
     = Inl (Exc ''Exception'' ''Circuit breaker is OPEN'')
   \<and> cb_invoked (CircuitBreaker_call cb0 raises_open 0 1 0)
   \<and> exc_class CircuitOpen = ''Exception''"
  by (simp add: CircuitBreaker_call_def admit_def should_attempt_reset_def tripped_breaker_def
        cb0_def CircuitBreaker_init_def raises_open_def CircuitOpen_def Exception_class_def
        on_failure_def Let_def)

section \<open>The manager with the dataclass of shared/models.py\<close>

lemma construct_MCPConnection:
  "construct MCPConnection (connect_kwargs server_name server_config) =
     Inl (Exc ''TypeError''
            (''MCPConnection.__init__() got an unexpected keyword argument ''
               @ quoted ''server_name''))"
  by (simp add: MCPConnection_def dataclass_init_def connect_kwargs_def MCPConnection_fields_def)

lemma record_error_MCPConnection:
  "record_error (rt\<lparr>conn_cls := MCPConnection\<rparr>) self server_name e =
     (Inl (if map_of (connections self) server_name = None then e
           else no_attribute ''MCPConnection'' ''update_status''), self)"
  by (simp add: record_error_def call_update_status_def MCPConnection_def split: option.splits)

lemma connect_server_MCPConnection:
  "connect_server (rt\<lparr>conn_cls := MCPConnection\<rparr>) server_name server_config self =
     (Inl (if map_of (connections self) server_name = None
           then Exc ''TypeError''
                  (''MCPConnection.__init__() got an unexpected keyword argument ''
                     @ quoted ''server_name'')
           else no_attribute ''MCPConnection'' ''update_status''), self)"
  by (simp add: connect_server_def construct_MCPConnection record_error_MCPConnection)

lemma connect_all_MCPConnection:
  "connect_all (rt\<lparr>conn_cls := MCPConnection\<rparr>) servers self = self"
  by (induction servers arbitrary: self) (auto simp: connect_server_MCPConnection)

lemma is_server_connected_MCPConnection:
  "is_server_connected (rt\<lparr>conn_cls := MCPConnection\<rparr>) self server_name =
     (if map_of (connections self) server_name = None then Inr False
      else Inl (no_attribute ''MCPConnection'' ''is_connected''))"
  by (simp add: is_server_connected_def call_is_connected_def MCPConnection_def split: option.splits)

text \<open>
  C9: \<open>connect_server\<close> calls \<open>MCPConnection\<close> with the keywords \<open>server_name\<close>,
  \<open>transport_type\<close>, \<open>connection_status\<close>, \<open>host\<close> and \<open>port\<close>.  The
  dataclass of shared/models.py has the fields \<open>name\<close>, \<open>host\<close>, \<open>port\<close>,
  \<open>status\<close>, \<open>error_message\<close>, \<open>tools\<close>, \<open>resources\<close> and \<open>prompts\<close>, no
  \<open>last_ping\<close>, and neither \<open>update_status\<close> nor \<open>is_connected\<close>.  So the
  construction raises a \<open>TypeError\<close>, and every call of \<open>connect_server\<close> raises
  and leaves the manager as it was: no record is stored.
\<close>

theorem connect_server_fails_at_construction:
  "map fst (connect_kwargs server_name server_config) =
     [''server_name'', ''transport_type'', ''connection_status'', ''host'', ''port'']
   \<and> map fst MCPConnection_fields =
     [''name'', ''host'', ''port'', ''status'', ''error_message'', ''tools'', ''resources'',
      ''prompts'']
   \<and> ''last_ping'' \<notin> set (map fst MCPConnection_fields)
   \<and> update_status_m MCPConnection = None \<and> is_connected_m MCPConnection = None
   \<and> construct MCPConnection (connect_kwargs server_name server_config) =
       Inl (Exc ''TypeError''
              (''MCPConnection.__init__() got an unexpected keyword argument ''
                 @ quoted ''server_name''))
   \<and> (\<exists>e. connect_server (rt\<lparr>conn_cls := MCPConnection\<rparr>) server_name server_config self
            = (Inl e, self))"
  by (simp add: connect_server_MCPConnection construct_MCPConnection)
     (simp add: connect_kwargs_def MCPConnection_fields_def MCPConnection_def)

lemma construct_dataclass_record:
  "construct MCPConnection
     [(''name'', PStr n), (''host'', PStr h), (''port'', PInt p), (''status'', PStatus st)]
   = Inr (dataclass_record n h p st)"
  by (simp add: MCPConnection_def dataclass_init_def MCPConnection_fields_def field_value_def
        dataclass_record_def)

lemma src_runtime_cls: "src_runtime\<lparr>conn_cls := MCPConnection\<rparr> = src_runtime"
  by (simp add: src_runtime_def)

lemma initialize_src:
  "initialize src_runtime (Inr servers) self = (Inr (), self)"
  using connect_all_MCPConnection [of src_runtime servers self]
  by (simp add: initialize_def src_runtime_cls)

text \<open>
  Whatever happens to the servers \<open>xs\<close>, \<open>initialize\<close> goes on to connect the servers
  \<open>ys\<close> after them.
\<close>

lemma connect_all_append:
  "connect_all rt (xs @ ys) self = connect_all rt ys (connect_all rt xs self)"
  by (induction xs arbitrary: self) (auto split: prod.splits sum.splits)

text \<open>
  C1 fails on the repository's code: with the servers of \<open>load_config\<close>, all of them
  answering, \<open>initialize\<close> returns and the manager is as it was before.  No server has
  a record, so none has the status \<open>connected\<close> or \<open>error\<close>.
\<close>

theorem initialize_stores_no_record:
  "initialize src_runtime (Inr load_config_servers) HTTPMCPManager_init
     = (Inr (), HTTPMCPManager_init)
   \<and> get_connection_status
        (snd (initialize src_runtime (Inr load_config_servers) HTTPMCPManager_init))
        ''personal_assistant'' = None
   \<and> get_connection_status
        (snd (initialize src_runtime (Inr load_config_servers) HTTPMCPManager_init))
        ''knowledge_base'' = None"
  by (simp add: initialize_src) (simp add: get_connection_status_def HTTPMCPManager_init_def)

lemma disconnect_server_MCPConnection:
  "disconnect_server (rt\<lparr>conn_cls := MCPConnection\<rparr>) server_name self =
     (if map_of (connections self) server_name = None
      then self\<lparr>base_urls := AList.delete server_name (base_urls self),
                capabilities_cache := AList.delete server_name (capabilities_cache self)\<rparr>
      else self)"
  by (simp add: disconnect_server_def call_update_status_def MCPConnection_def
           split: option.splits)

section \<open>Introspection\<close>

lemma retry_loop_invariant:
  assumes step: "\<And>s. P s \<Longrightarrow> P (snd (func s))"
  shows "P s \<Longrightarrow> P (final (retry_loop config func rnd attempts last_exception events s))"
proof (induction attempts arbitrary: last_exception events s)
  case Nil
  then show ?case by simp
next
  case (Cons attempt rest)
  from step [OF Cons.prems] have "P (snd (func s))" .
  with Cons.IH show ?case
    by (auto split: prod.splits sum.splits)
qed

lemma retry_invariant:
  assumes "\<And>s. P s \<Longrightarrow> P (snd (func s))" and "P s"
  shows "P (final (retry_with_exponential_backoff config func rnd s))"
  unfolding retry_with_exponential_backoff_def
  using assms by (rule retry_loop_invariant)

lemma get_listing_state:
  "snd (get_listing rt base_url key self) =
     self\<lparr>sent := sent self @ [GET (base_url @ ''/'' @ key)]\<rparr>"
  by (simp add: get_listing_def send_def split: http_reply.splits sum.splits)

lemma fetch_capabilities_frame:
  "connections (snd (fetch_capabilities rt base_url self)) = connections self
   \<and> base_urls (snd (fetch_capabilities rt base_url self)) = base_urls self
   \<and> capabilities_cache (snd (fetch_capabilities rt base_url self)) = capabilities_cache self"
proof -
  have a: "\<And>k s. connections (snd (get_listing rt base_url k s)) = connections s
      \<and> base_urls (snd (get_listing rt base_url k s)) = base_urls s
      \<and> capabilities_cache (snd (get_listing rt base_url k s)) = capabilities_cache s"
    by (simp add: get_listing_state)
  show ?thesis
    unfolding fetch_capabilities_def
    using a [of "''tools''" self]
    by (auto split: prod.splits sum.splits)
      (metis a snd_conv)+
qed

lemma fetch_capabilities_shape:
  "fetch_capabilities rt base_url self = (Inr capabilities, self') \<Longrightarrow>
   \<exists>tools resources prompts.
     capabilities = PDict [(''tools'', tools), (''resources'', resources), (''prompts'', prompts)]"
  by (auto simp: fetch_capabilities_def split: prod.splits sum.splits)

lemma introspect_body_fetch_fails:
  assumes "map_of (base_urls self) server_name = Some base_url"
    and "fst (fetch_capabilities rt base_url self) = Inl e"
  shows "fst (introspect_body rt server_name self) = Inl e
       \<and> capabilities_cache (snd (introspect_body rt server_name self)) = capabilities_cache self
       \<and> connections (snd (introspect_body rt server_name self)) = connections self"
  using assms fetch_capabilities_frame [of rt base_url self]
  by (auto simp: introspect_body_def base_url_of_def split: prod.splits sum.splits)

lemma introspect_body_cache:
  "capabilities_cache (snd (introspect_body rt server_name self)) = capabilities_cache self
   \<or> (\<exists>tools resources prompts.
         capabilities_cache (snd (introspect_body rt server_name self)) =
           AList.update server_name
             (PDict [(''tools'', tools), (''resources'', resources), (''prompts'', prompts)])
             (capabilities_cache self))"
proof (cases "base_url_of rt self server_name")
  case (Inl e)
  then show ?thesis by (simp add: introspect_body_def)
next
  case (Inr base_url)
  show ?thesis
  proof (cases "fetch_capabilities rt base_url self")
    case (Pair res self1)
    note fr = fetch_capabilities_frame [of rt base_url self, unfolded Pair, simplified]
    show ?thesis
    proof (cases res)
      case (Inl e)
      with Inr Pair fr show ?thesis by (simp add: introspect_body_def)
    next
      case r: (Inr capabilities)
      from fetch_capabilities_shape [OF Pair [unfolded r]]
      obtain t r' p where "capabilities = PDict [(''tools'', t), (''resources'', r'), (''prompts'', p)]"
        by blast
      with Inr Pair r fr show ?thesis
        by (auto simp: introspect_body_def Let_def split: option.splits)
    qed
  qed
qed

lemma fetch_capabilities_fails:
  "fst (fetch_capabilities rt base_url self) = Inl e \<longleftrightarrow>
     fst (get_listing rt base_url ''tools'' self) = Inl e
     \<or> (\<exists>t s1. get_listing rt base_url ''tools'' self = (Inr t, s1)
           \<and> (fst (get_listing rt base_url ''resources'' s1) = Inl e
              \<or> (\<exists>r s2. get_listing rt base_url ''resources'' s1 = (Inr r, s2)
                    \<and> fst (get_listing rt base_url ''prompts'' s2) = Inl e)))"
  by (auto simp: fetch_capabilities_def split: prod.splits sum.splits)

lemma introspect_server_cache:
  "capabilities_cache (snd (introspect_server rt server_name self)) = capabilities_cache self
   \<or> (\<exists>tools resources prompts.
         capabilities_cache (snd (introspect_server rt server_name self)) =
           AList.update server_name
             (PDict [(''tools'', tools), (''resources'', resources), (''prompts'', prompts)])
             (capabilities_cache self))"
proof -
  define c0 where "c0 = capabilities_cache self"
  define P where "P = (\<lambda>s::manager. capabilities_cache s = c0
     \<or> (\<exists>tools resources prompts. capabilities_cache s =
           AList.update server_name
             (PDict [(''tools'', tools), (''resources'', resources), (''prompts'', prompts)]) c0))"
  have step: "\<And>s. P s \<Longrightarrow> P (snd (introspect_body rt server_name s))"
  proof -
    fix s assume "P s"
    with introspect_body_cache [of rt server_name s]
    show "P (snd (introspect_body rt server_name s))"
      unfolding P_def by (elim disjE exE) (auto simp: AList.update_last)
  qed
  have "P self" by (simp add: P_def c0_def)
  from retry_invariant [of P "introspect_body rt server_name", OF step this]
  show ?thesis
    by (simp add: introspect_server_def Let_def P_def c0_def)
qed

text \<open>
  C4: if one of the three calls of an introspection fails (the first, or the second after
  the first went through, or the third after the first two went through), the
  introspection raises that exception and leaves \<open>capabilities_cache\<close> and the
  connection records as they were.  The decorated \<open>_introspect_server\<close>, with its
  retries, leaves the cache as it was or with the entry of the server replaced by a whole
  set of tools, resources and prompts.
\<close>

theorem introspection_all_or_nothing:
  assumes url: "map_of (base_urls self) server_name = Some base_url"
  shows "(fst (get_listing rt base_url ''tools'' self) = Inl e
          \<or> (\<exists>t s1. get_listing rt base_url ''tools'' self = (Inr t, s1)
                \<and> (fst (get_listing rt base_url ''resources'' s1) = Inl e
                   \<or> (\<exists>r s2. get_listing rt base_url ''resources'' s1 = (Inr r, s2)
                         \<and> fst (get_listing rt base_url ''prompts'' s2) = Inl e)))
          \<longrightarrow> fst (introspect_body rt server_name self) = Inl e
              \<and> capabilities_cache (snd (introspect_body rt server_name self))
                  = capabilities_cache self
              \<and> connections (snd (introspect_body rt server_name self)) = connections self)
       \<and> (capabilities_cache (snd (introspect_server rt server_name self))
             = capabilities_cache self
           \<or> (\<exists>tools resources prompts.
                 capabilities_cache (snd (introspect_server rt server_name self)) =
                   AList.update server_name
                     (PDict [(''tools'', tools), (''resources'', resources),
                             (''prompts'', prompts)])
                     (capabilities_cache self)))"
  using introspect_body_fetch_fails [OF url, of rt e] introspect_server_cache [of rt server_name self]
  by (simp only: fetch_capabilities_fails) blast

lemma stale_c_prompts_fail:
  "get_listing src_runtime ''http://c:3'' ''tools'' stale_c =
     (Inr (PList [PDict [(''name'', PStr ''add_task'')]]),
      stale_c\<lparr>sent := [GET ''http://c:3/tools'']\<rparr>)
   \<and> get_listing src_runtime ''http://c:3'' ''resources''
        (stale_c\<lparr>sent := [GET ''http://c:3/tools'']\<rparr>) =
     (Inr (PList []), stale_c\<lparr>sent := [GET ''http://c:3/tools'', GET ''http://c:3/resources'']\<rparr>)
   \<and> fst (get_listing src_runtime ''http://c:3'' ''prompts''
        (stale_c\<lparr>sent := [GET ''http://c:3/tools'', GET ''http://c:3/resources'']\<rparr>)) =
     Inl sample_status_error"
  by (simp add: get_listing_def send_def src_runtime_def sample_net_def answer_def
        raise_for_status_def sample_listing_def stale_c_def HTTPMCPManager_init_def)

theorem introspection_all_or_nothing_witness:
  "map_of (base_urls stale_c) ''C'' = Some ''http://c:3''
   \<and> fst (introspect_body src_runtime ''C'' stale_c) = Inl sample_status_error
   \<and> capabilities_cache (snd (introspect_body src_runtime ''C'' stale_c))
       = [(''C'', PDict [(''tools'', PList [])])]
   \<and> connections (snd (introspect_body src_runtime ''C'' stale_c)) = connections stale_c
   \<and> sent (snd (introspect_body src_runtime ''C'' stale_c))
       = [GET ''http://c:3/tools'', GET ''http://c:3/resources'', GET ''http://c:3/prompts'']"
proof -
  have url: "map_of (base_urls stale_c) ''C'' = Some ''http://c:3''"
    by (simp add: stale_c_def HTTPMCPManager_init_def)
  have third: "fst (get_listing src_runtime ''http://c:3'' ''tools'' stale_c) = Inl sample_status_error
          \<or> (\<exists>t s1. get_listing src_runtime ''http://c:3'' ''tools'' stale_c = (Inr t, s1)
                \<and> (fst (get_listing src_runtime ''http://c:3'' ''resources'' s1) = Inl sample_status_error
                   \<or> (\<exists>r s2. get_listing src_runtime ''http://c:3'' ''resources'' s1 = (Inr r, s2)
                         \<and> fst (get_listing src_runtime ''http://c:3'' ''prompts'' s2) = Inl sample_status_error)))"
    using stale_c_prompts_fail by blast
  from introspection_all_or_nothing [OF url, of src_runtime sample_status_error] third
  have main: "fst (introspect_body src_runtime ''C'' stale_c) = Inl sample_status_error
      \<and> capabilities_cache (snd (introspect_body src_runtime ''C'' stale_c)) = capabilities_cache stale_c
      \<and> connections (snd (introspect_body src_runtime ''C'' stale_c)) = connections stale_c"
    by blast
  have cache: "capabilities_cache stale_c = [(''C'', PDict [(''tools'', PList [])])]"
    by (simp add: stale_c_def HTTPMCPManager_init_def)
  have sent: "sent (snd (introspect_body src_runtime ''C'' stale_c))
       = [GET ''http://c:3/tools'', GET ''http://c:3/resources'', GET ''http://c:3/prompts'']"
    by (simp add: introspect_body_def base_url_of_def fetch_capabilities_def
        get_listing_def send_def src_runtime_def sample_net_def answer_def
        raise_for_status_def sample_listing_def stale_c_def HTTPMCPManager_init_def)
  from url main cache sent show ?thesis by simp
qed

text \<open>
  Not all failures of an introspection come before the write: a listing without length
  makes the log message after it raise.  The cache then holds the whole new set, and
  the introspection has raised.
\<close>

lemma introspect_body_raises_after_write:
  "introspect_body (src_runtime\<lparr>net := null_tools_net\<rparr>) ''C'' stale_c =
     (Inl (Exc ''TypeError'' (''object of type '' @ quoted ''NoneType'' @ '' has no len()'')),
      stale_c\<lparr>capabilities_cache :=
                 [(''C'', PDict [(''tools'', PNone), (''resources'', PList []),
                                 (''prompts'', PList [])])],
               connections :=
                 [(''C'', dataclass_record ''C'' ''c'' 3 CONNECTED
                          @ [(''capabilities'',
                              PDict [(''tools'', PNone), (''resources'', PList []),
                                     (''prompts'', PList [])])])],
               sent := [GET ''http://c:3/tools'', GET ''http://c:3/resources'',
                        GET ''http://c:3/prompts'']\<rparr>)"
  by (simp add: introspect_body_def base_url_of_def fetch_capabilities_def get_listing_def
        send_def src_runtime_def null_tools_net_def answer_def raise_for_status_def
        log_counts_def stale_c_def HTTPMCPManager_init_def dataclass_record_def Let_def)

section \<open>Calls through the breakers\<close>

lemmas eval_defs =
  call_tool_def call_tool_body_def read_resource_def read_resource_body_def
  get_prompt_def get_prompt_body_def post_call_def is_server_connected_def
  call_is_connected_def call_update_status_def record_error_def set_last_ping_def
  base_url_of_def send_def raise_for_status_def not_connected_def py_str_def
  CircuitBreaker_call_def admit_def should_attempt_reset_def on_failure_def on_success_def
  CircuitBreaker_init_def Exception_class_def CircuitOpen_def HTTPMCPManager_init_def
  src_runtime_def MCPConnection_def sample_net_def answer_def
  sample_status_error_def sample_listing_def sample_capabilities_def
  sample_repr_def Let_def

lemma post_call_not_connected:
  "is_server_connected rt self server_name = Inr False \<Longrightarrow>
   post_call rt path payload result_key t_ping server_name self =
     (Inl (not_connected server_name), self)"
  by (simp add: post_call_def)

lemma guarded_not_connected:
  assumes "func self = (Inl (not_connected server_name), self)"
  shows "cb_result (CircuitBreaker_call cb func t_gate t_fail self) =
           (case admit cb t_gate of Inl e \<Rightarrow> Inl e | Inr cb1 \<Rightarrow> Inl (not_connected server_name))
       \<and> cb_world (CircuitBreaker_call cb func t_gate t_fail self) = self"
  using assms by (simp add: CircuitBreaker_call_def split: sum.splits)

text \<open>
  C5, as amended: for a server that \<open>is_server_connected\<close> reports as not connected,
  \<open>call_tool\<close>, \<open>read_resource\<close> and \<open>get_prompt\<close> send no request and leave the
  dictionaries of the manager as they were.  The exception is the
  \<open>ConnectionError\<close> "Server ... is not connected" when the breaker of the method lets
  the call through, and the breaker's own exception when it does not.
\<close>

theorem not_connected_calls_send_nothing:
  assumes nc: "is_server_connected rt self server_name = Inr False"
  shows "fst (call_tool rt t_gate t_ping t_fail server_name tool_name arguments self) =
           (case admit (call_tool_breaker self) t_gate of
              Inl e \<Rightarrow> Inl e | Inr cb \<Rightarrow> Inl (not_connected server_name))
       \<and> same_dicts self (snd (call_tool rt t_gate t_ping t_fail server_name tool_name arguments self))
       \<and> fst (read_resource rt t_gate t_ping t_fail server_name uri self) =
           (case admit (read_resource_breaker self) t_gate of
              Inl e \<Rightarrow> Inl e | Inr cb \<Rightarrow> Inl (not_connected server_name))
       \<and> same_dicts self (snd (read_resource rt t_gate t_ping t_fail server_name uri self))
       \<and> fst (get_prompt rt t_gate t_ping t_fail server_name prompt_name arguments self) =
           (case admit (get_prompt_breaker self) t_gate of
              Inl e \<Rightarrow> Inl e | Inr cb \<Rightarrow> Inl (not_connected server_name))
       \<and> same_dicts self (snd (get_prompt rt t_gate t_ping t_fail server_name prompt_name arguments self))"
proof -
  have a: "call_tool_body rt t_ping server_name tool_name arguments self
             = (Inl (not_connected server_name), self)"
    by (simp add: call_tool_body_def post_call_not_connected [OF nc])
  have b: "read_resource_body rt t_ping server_name uri self
             = (Inl (not_connected server_name), self)"
    by (simp add: read_resource_body_def post_call_not_connected [OF nc])
  have c: "get_prompt_body rt t_ping server_name prompt_name arguments self
             = (Inl (not_connected server_name), self)"
    by (simp add: get_prompt_body_def post_call_not_connected [OF nc])
  show ?thesis
    using guarded_not_connected [of "call_tool_body rt t_ping server_name tool_name arguments"
            self server_name "call_tool_breaker self" t_gate t_fail, OF a]
      guarded_not_connected [of "read_resource_body rt t_ping server_name uri"
            self server_name "read_resource_breaker self" t_gate t_fail, OF b]
      guarded_not_connected [of "get_prompt_body rt t_ping server_name prompt_name arguments"
            self server_name "get_prompt_breaker self" t_gate t_fail, OF c]
    by (simp add: call_tool_def read_resource_def get_prompt_def Let_def same_dicts_def)
qed

lemma thrice_src:
  "thrice src_runtime ''B'' ''add_task'' HTTPMCPManager_init =
     HTTPMCPManager_init\<lparr>call_tool_breaker := tripped_breaker\<rparr>"
  by (simp add: thrice_def call_tool_def call_tool_body_def post_call_def is_server_connected_def
        HTTPMCPManager_init_def CircuitBreaker_call_def admit_def CircuitBreaker_init_def
        on_failure_def Exception_class_def tripped_breaker_def Let_def)

text \<open>
  C5 as stated fails: the repository's manager has no connected server, and after three
  calls of \<open>call_tool\<close> against \<open>B\<close>, each raising "Server B is not connected", the
  fourth call within the recovery timeout raises "Circuit breaker is OPEN" instead.
\<close>

theorem not_connected_error_counterexample:
  "is_server_connected src_runtime (thrice src_runtime ''B'' ''add_task'' HTTPMCPManager_init) ''B''
     = Inr False
   \<and> fst (call_tool src_runtime 10 10 11 ''B'' ''add_task'' (PDict [])
             (thrice src_runtime ''B'' ''add_task'' HTTPMCPManager_init))
       = Inl (Exc ''Exception'' ''Circuit breaker is OPEN'')
   \<and> fst (call_tool src_runtime 10 10 11 ''B'' ''add_task'' (PDict [])
             (thrice src_runtime ''B'' ''add_task'' HTTPMCPManager_init))
       \<noteq> Inl (not_connected ''B'')"
  unfolding thrice_src
  by (simp add: call_tool_def call_tool_body_def post_call_def is_server_connected_def
        HTTPMCPManager_init_def CircuitBreaker_call_def admit_def should_attempt_reset_def
        tripped_breaker_def CircuitOpen_def not_connected_def Let_def)

theorem not_connected_calls_send_nothing_witness:
  "is_server_connected src_runtime HTTPMCPManager_init ''B'' = Inr False
   \<and> fst (call_tool src_runtime 0 0 1 ''B'' ''add_task'' (PDict []) HTTPMCPManager_init)
       = Inl (Exc ''ConnectionError'' ''Server B is not connected'')
   \<and> sent (snd (call_tool src_runtime 0 0 1 ''B'' ''add_task'' (PDict []) HTTPMCPManager_init)) = []
   \<and> fst (read_resource src_runtime 0 0 1 ''B'' ''tasks://all'' HTTPMCPManager_init)
       = Inl (Exc ''ConnectionError'' ''Server B is not connected'')
   \<and> sent (snd (read_resource src_runtime 0 0 1 ''B'' ''tasks://all'' HTTPMCPManager_init)) = []
   \<and> fst (get_prompt src_runtime 0 0 1 ''B'' ''summarize_day'' PNone HTTPMCPManager_init)
       = Inl (Exc ''ConnectionError'' ''Server B is not connected'')
   \<and> sent (snd (get_prompt src_runtime 0 0 1 ''B'' ''summarize_day'' PNone HTTPMCPManager_init)) = []
   \<and> fst (call_tool src_runtime 10 10 11 ''B'' ''add_task'' (PDict [])
             (HTTPMCPManager_init\<lparr>call_tool_breaker := tripped_breaker\<rparr>))
       = Inl (Exc ''Exception'' ''Circuit breaker is OPEN'')
   \<and> sent (snd (call_tool src_runtime 10 10 11 ''B'' ''add_task'' (PDict [])
             (HTTPMCPManager_init\<lparr>call_tool_breaker := tripped_breaker\<rparr>))) = []"
proof -
  have nc: "is_server_connected src_runtime HTTPMCPManager_init ''B'' = Inr False"
    by (simp add: is_server_connected_def HTTPMCPManager_init_def)
  have nc': "is_server_connected src_runtime
               (HTTPMCPManager_init\<lparr>call_tool_breaker := tripped_breaker\<rparr>) ''B'' = Inr False"
    by (simp add: is_server_connected_def HTTPMCPManager_init_def)
  have adm: "admit (CircuitBreaker_init 3 30 Exception_class) 0
               = Inr (CircuitBreaker_init 3 30 Exception_class)"
    by (simp add: admit_def CircuitBreaker_init_def)
  have rej: "admit tripped_breaker 10 = Inl (Exc ''Exception'' ''Circuit breaker is OPEN'')"
    by (simp add: admit_def tripped_breaker_def should_attempt_reset_def CircuitOpen_def)
  have nm: "not_connected ''B'' = Exc ''ConnectionError'' ''Server B is not connected''"
    by (simp add: not_connected_def)
  have f: "call_tool_breaker HTTPMCPManager_init = CircuitBreaker_init 3 30 Exception_class"
    "read_resource_breaker HTTPMCPManager_init = CircuitBreaker_init 3 30 Exception_class"
    "get_prompt_breaker HTTPMCPManager_init = CircuitBreaker_init 3 30 Exception_class"
    "sent HTTPMCPManager_init = []"
    by (simp_all add: HTTPMCPManager_init_def)
  from not_connected_calls_send_nothing [OF nc, of 0 0 1 "''add_task''" "PDict []" "''tasks://all''"
      "''summarize_day''"]
  have a: "fst (call_tool src_runtime 0 0 1 ''B'' ''add_task'' (PDict []) HTTPMCPManager_init)
       = Inl (Exc ''ConnectionError'' ''Server B is not connected'')
   \<and> sent (snd (call_tool src_runtime 0 0 1 ''B'' ''add_task'' (PDict []) HTTPMCPManager_init)) = []
   \<and> fst (read_resource src_runtime 0 0 1 ''B'' ''tasks://all'' HTTPMCPManager_init)
       = Inl (Exc ''ConnectionError'' ''Server B is not connected'')
   \<and> sent (snd (read_resource src_runtime 0 0 1 ''B'' ''tasks://all'' HTTPMCPManager_init)) = []"
    by (simp add: same_dicts_def nm f adm)
  from not_connected_calls_send_nothing [OF nc, of 0 0 1 "''add_task''" PNone "''tasks://all''"
      "''summarize_day''"]
  have b: "fst (get_prompt src_runtime 0 0 1 ''B'' ''summarize_day'' PNone HTTPMCPManager_init)
       = Inl (Exc ''ConnectionError'' ''Server B is not connected'')
   \<and> sent (snd (get_prompt src_runtime 0 0 1 ''B'' ''summarize_day'' PNone HTTPMCPManager_init)) = []"
    by (simp add: same_dicts_def nm f adm)
  from not_connected_calls_send_nothing [OF nc', of 10 10 11 "''add_task''" "PDict []"]
  have c: "fst (call_tool src_runtime 10 10 11 ''B'' ''add_task'' (PDict [])
             (HTTPMCPManager_init\<lparr>call_tool_breaker := tripped_breaker\<rparr>))
       = Inl (Exc ''Exception'' ''Circuit breaker is OPEN'')
   \<and> sent (snd (call_tool src_runtime 10 10 11 ''B'' ''add_task'' (PDict [])
             (HTTPMCPManager_init\<lparr>call_tool_breaker := tripped_breaker\<rparr>))) = []"
    by (simp add: same_dicts_def f rej)
  from nc a b c show ?thesis by simp
qed

lemma failed_call_cases:
  fixes func :: "'s \<Rightarrow> (exc + 'a) \<times> 's"
  assumes "cb_inv cb" and "\<forall>e. expected_exception cb e"
    and "r = CircuitBreaker_call cb func t_gate t_fail s" and "cb_result r = Inl e"
  shows "cb_inv (cb_after r) \<and> failure_threshold (cb_after r) = failure_threshold cb
       \<and> recovery_timeout (cb_after r) = recovery_timeout cb
       \<and> expected_exception (cb_after r) = expected_exception cb
       \<and> (state cb = OPEN \<longrightarrow> state (cb_after r) = OPEN)
       \<and> (state (cb_after r) = OPEN
           \<or> (state cb = CLOSED \<and> failure_count (cb_after r) = failure_count cb + 1
               \<and> failure_count (cb_after r) < failure_threshold cb))"
  using assms
  by (auto simp: CircuitBreaker_call_def admit_def on_failure_def cb_inv_def Let_def
           split: sum.splits prod.splits if_splits)

lemma call_tool_failed:
  assumes inv: "cb_inv (call_tool_breaker s)" and ex: "\<forall>e. expected_exception (call_tool_breaker s) e"
    and c: "call_tool rt g p f server_name tool_name arguments s = (Inl e, s')"
  shows "cb_inv (call_tool_breaker s')
       \<and> failure_threshold (call_tool_breaker s') = failure_threshold (call_tool_breaker s)
       \<and> recovery_timeout (call_tool_breaker s') = recovery_timeout (call_tool_breaker s)
       \<and> expected_exception (call_tool_breaker s') = expected_exception (call_tool_breaker s)
       \<and> (state (call_tool_breaker s) = OPEN \<longrightarrow> state (call_tool_breaker s') = OPEN)
       \<and> (state (call_tool_breaker s') = OPEN
           \<or> (state (call_tool_breaker s) = CLOSED
               \<and> failure_count (call_tool_breaker s') = failure_count (call_tool_breaker s) + 1
               \<and> failure_count (call_tool_breaker s') < failure_threshold (call_tool_breaker s)))"
proof -
  define r where "r = CircuitBreaker_call (call_tool_breaker s)
                (call_tool_body rt p server_name tool_name arguments) g f s"
  from c have res: "cb_result r = Inl e" and s': "s' = (cb_world r)\<lparr>call_tool_breaker := cb_after r\<rparr>"
    by (simp_all add: call_tool_def Let_def r_def [symmetric])
  from failed_call_cases [OF inv ex r_def res] show ?thesis
    by (simp add: s')
qed

lemma call_tool_rejected:
  assumes "state (call_tool_breaker s) = OPEN"
    and "last_failure_time (call_tool_breaker s) = Some t0"
    and "t_gate - t0 < recovery_timeout (call_tool_breaker s)"
  shows "call_tool rt t_gate t_ping t_fail server_name tool_name arguments s = (Inl CircuitOpen, s)"
  using assms
  by (simp add: call_tool_def CircuitBreaker_call_def admit_def should_attempt_reset_def)

text \<open>
  C6: all calls of \<open>call_tool\<close> go through one breaker, whatever the server.  After
  three consecutive failing calls against a server \<open>server_a\<close> the breaker is open, and
  a call against any server \<open>server_b\<close>, made before the recovery timeout has elapsed
  since the last recorded failure, raises the breaker's exception and leaves the manager
  as it was: nothing is sent.
\<close>

theorem call_tool_breaker_is_shared:
  assumes thr: "failure_threshold (call_tool_breaker s0) = 3"
    and inv: "cb_inv (call_tool_breaker s0)"
    and ex: "\<forall>e. expected_exception (call_tool_breaker s0) e"
    and c1: "call_tool rt g1 p1 f1 server_a tool1 args1 s0 = (Inl e1, s1)"
    and c2: "call_tool rt g2 p2 f2 server_a tool2 args2 s1 = (Inl e2, s2)"
    and c3: "call_tool rt g3 p3 f3 server_a tool3 args3 s2 = (Inl e3, s3)"
    and lft: "last_failure_time (call_tool_breaker s3) = Some t0"
    and within: "t_gate - t0 < recovery_timeout (call_tool_breaker s0)"
  shows "state (call_tool_breaker s3) = OPEN
       \<and> call_tool rt t_gate t_ping t_fail server_b tool_name arguments s3 = (Inl CircuitOpen, s3)
       \<and> sent (snd (call_tool rt t_gate t_ping t_fail server_b tool_name arguments s3)) = sent s3"
proof -
  note a1 = call_tool_failed [OF inv ex c1]
  from a1 ex have ex1: "\<forall>e. expected_exception (call_tool_breaker s1) e" by simp
  from a1 have inv1: "cb_inv (call_tool_breaker s1)" by simp
  note a2 = call_tool_failed [OF inv1 ex1 c2]
  from a2 ex1 have ex2: "\<forall>e. expected_exception (call_tool_breaker s2) e" by simp
  from a2 have inv2: "cb_inv (call_tool_breaker s2)" by simp
  note a3 = call_tool_failed [OF inv2 ex2 c3]
  from inv have nn: "0 \<le> failure_count (call_tool_breaker s0)" by (simp add: cb_inv_def)
  have op: "state (call_tool_breaker s3) = OPEN"
    using a1 a2 a3 thr nn by auto
  from a1 a2 a3 have rt3: "recovery_timeout (call_tool_breaker s3) = recovery_timeout (call_tool_breaker s0)"
    by simp
  from within rt3 have w: "t_gate - t0 < recovery_timeout (call_tool_breaker s3)" by simp
  from call_tool_rejected [OF op lft w] op show ?thesis by simp
qed

theorem call_tool_breaker_is_shared_witness:
  "fst (call_tool src_runtime 0 0 1 ''A'' ''add_task'' (PDict []) HTTPMCPManager_init)
       = Inl (Exc ''ConnectionError'' ''Server A is not connected'')
   \<and> state (call_tool_breaker (thrice src_runtime ''A'' ''add_task'' HTTPMCPManager_init)) = OPEN
   \<and> call_tool src_runtime 10 10 11 ''B'' ''add_task'' (PDict [])
             (thrice src_runtime ''A'' ''add_task'' HTTPMCPManager_init)
       = (Inl (Exc ''Exception'' ''Circuit breaker is OPEN''),
          thrice src_runtime ''A'' ''add_task'' HTTPMCPManager_init)
   \<and> sent (snd (call_tool src_runtime 10 10 11 ''B'' ''add_task'' (PDict [])
             (thrice src_runtime ''A'' ''add_task'' HTTPMCPManager_init)))
       = sent (thrice src_runtime ''A'' ''add_task'' HTTPMCPManager_init)"
proof -
  define u1 where "u1 = snd (call_tool src_runtime 0 0 1 ''A'' ''add_task'' (PDict []) HTTPMCPManager_init)"
  define u2 where "u2 = snd (call_tool src_runtime 2 2 3 ''A'' ''add_task'' (PDict []) u1)"
  define u3 where "u3 = snd (call_tool src_runtime 4 4 5 ''A'' ''add_task'' (PDict []) u2)"
  have tu: "thrice src_runtime ''A'' ''add_task'' HTTPMCPManager_init = u3"
    by (simp add: thrice_def u1_def u2_def u3_def Let_def)
  have d1: "call_tool src_runtime 0 0 1 ''A'' ''add_task'' (PDict []) HTTPMCPManager_init
              = (Inl (not_connected ''A''), u1)"
    unfolding u1_def prod_eq_iff by (simp add: eval_defs)
  have d2: "call_tool src_runtime 2 2 3 ''A'' ''add_task'' (PDict []) u1
              = (Inl (not_connected ''A''), u2)"
    unfolding u2_def u1_def prod_eq_iff by (simp add: eval_defs)
  have d3: "call_tool src_runtime 4 4 5 ''A'' ''add_task'' (PDict []) u2
              = (Inl (not_connected ''A''), u3)"
    unfolding u3_def u2_def u1_def prod_eq_iff by (simp add: eval_defs)
  have lfu: "last_failure_time (call_tool_breaker u3) = Some 5"
    unfolding u3_def u2_def u1_def by (simp add: eval_defs)
  have pru: "failure_threshold (call_tool_breaker HTTPMCPManager_init) = 3"
    "cb_inv (call_tool_breaker HTTPMCPManager_init)"
    "\<forall>e. expected_exception (call_tool_breaker HTTPMCPManager_init) e"
    "(10::real) - 5 < recovery_timeout (call_tool_breaker HTTPMCPManager_init)"
    by (simp_all add: eval_defs cb_inv_def)
  note src = call_tool_breaker_is_shared [OF pru(1) pru(2) pru(3) d1 d2 d3 lfu pru(4),
      of 10 11 "''B''" "''add_task''" "PDict []", unfolded tu [symmetric]]
  from src d1 show ?thesis
    by (simp add: CircuitOpen_def not_connected_def)
qed

section \<open>Refreshing the capabilities\<close>


















section \<open>What the dataclass of shared/models.py leaves of the calls\<close>

text \<open>
  With the class of the repository \<open>is_server_connected\<close> never returns \<open>True\<close>: it
  returns \<open>False\<close> without a record and raises with one.  So \<open>call_tool\<close>,
  \<open>read_resource\<close> and \<open>get_prompt\<close> raise in every state of the manager, before any
  request is sent and before any record is touched, and the bulk form of
  \<open>refresh_capabilities\<close> introspects no server.
\<close>

lemma post_call_MCPConnection:
  "post_call (rt\<lparr>conn_cls := MCPConnection\<rparr>) path payload result_key t_ping server_name self =
     (Inl (if map_of (connections self) server_name = None then not_connected server_name
           else no_attribute ''MCPConnection'' ''is_connected''), self)"
  by (simp add: post_call_def is_server_connected_MCPConnection)

lemma guarded_raising:
  assumes "func self = (Inl e, self)"
  shows "(\<exists>e'. cb_result (CircuitBreaker_call cb func t_gate t_fail self) = Inl e')
       \<and> cb_world (CircuitBreaker_call cb func t_gate t_fail self) = self"
  using assms by (auto simp: CircuitBreaker_call_def split: sum.splits)

lemma calls_MCPConnection_send_nothing:
  fixes rt :: runtime
  defines "R \<equiv> rt\<lparr>conn_cls := MCPConnection\<rparr>"
  shows "(\<exists>e. fst (call_tool R t_gate t_ping t_fail server_name tool_name arguments self) = Inl e)
       \<and> same_dicts self (snd (call_tool R t_gate t_ping t_fail server_name tool_name arguments self))
       \<and> (\<exists>e. fst (read_resource R t_gate t_ping t_fail server_name uri self) = Inl e)
       \<and> same_dicts self (snd (read_resource R t_gate t_ping t_fail server_name uri self))
       \<and> (\<exists>e. fst (get_prompt R t_gate t_ping t_fail server_name prompt_name arguments self) = Inl e)
       \<and> same_dicts self (snd (get_prompt R t_gate t_ping t_fail server_name prompt_name arguments self))"
proof -
  let ?e = "if map_of (connections self) server_name = None then not_connected server_name
            else no_attribute ''MCPConnection'' ''is_connected''"
  have a: "call_tool_body R t_ping server_name tool_name arguments self = (Inl ?e, self)"
    by (simp add: call_tool_body_def R_def post_call_MCPConnection)
  have b: "read_resource_body R t_ping server_name uri self = (Inl ?e, self)"
    by (simp add: read_resource_body_def R_def post_call_MCPConnection)
  have c: "get_prompt_body R t_ping server_name prompt_name arguments self = (Inl ?e, self)"
    by (simp add: get_prompt_body_def R_def post_call_MCPConnection)
  show ?thesis
    using guarded_raising [of "call_tool_body R t_ping server_name tool_name arguments" self ?e
            "call_tool_breaker self" t_gate t_fail, OF a]
      guarded_raising [of "read_resource_body R t_ping server_name uri" self ?e
            "read_resource_breaker self" t_gate t_fail, OF b]
      guarded_raising [of "get_prompt_body R t_ping server_name prompt_name arguments" self ?e
            "get_prompt_breaker self" t_gate t_fail, OF c]
    by (simp add: call_tool_def read_resource_def get_prompt_def Let_def same_dicts_def)
qed

lemma refresh_each_MCPConnection:
  "snd (refresh_each (rt\<lparr>conn_cls := MCPConnection\<rparr>) names self) = self"
  by (induction names arbitrary: self) (simp_all add: is_server_connected_MCPConnection)

text \<open>
  Without records \<open>get_available_tools\<close> returns the empty dictionary, whatever the cache
  holds.
\<close>

lemma collect_tools_no_records:
  "connections self = [] \<Longrightarrow> collect_tools rt self cache all_tools = Inr all_tools"
  by (induction cache arbitrary: all_tools) (auto simp: is_server_connected_def)

lemma get_available_tools_no_records:
  "connections self = [] \<Longrightarrow> get_available_tools rt self = Inr []"
  by (simp add: get_available_tools_def collect_tools_no_records)

end
